theory Spec2Isabelle
  imports Complex_Main
begin

section \<open>JavaScript values\<close>

text \<open>
  The client reads backend payloads with \<^verbatim>\<open>response.json()\<close>, so a payload is any
  JSON value. A missing property reads as \<^verbatim>\<open>undefined\<close>. Numbers are idealised as
  rationals (JSON numbers are finite decimals).
\<close>

datatype js =
    JUndefined
  | JNull
  | JBool bool
  | JNum rat
  | JStr string
  | JArr "js list"
  | JObj "(string \<times> js) list"

text \<open>
  Property read \<^verbatim>\<open>v.k\<close> and \<^verbatim>\<open>v?.k\<close> for the property names the client reads from a
  payload (none of them is a member of a built-in prototype): the own property of an
  object, \<^verbatim>\<open>undefined\<close> otherwise. A plain \<^verbatim>\<open>v.k\<close> throws a TypeError when \<open>v\<close> is
  \<^verbatim>\<open>null\<close> or \<^verbatim>\<open>undefined\<close>; the callers below test \<open>nullish\<close> first where the
  source reads with a plain dot.
\<close>

fun js_get :: "js \<Rightarrow> string \<Rightarrow> js" where
  "js_get (JObj kvs) k = (case map_of kvs k of Some v \<Rightarrow> v | None \<Rightarrow> JUndefined)"
| "js_get _ k = JUndefined"

fun nullish :: "js \<Rightarrow> bool" where
  "nullish JUndefined = True"
| "nullish JNull = True"
| "nullish _ = False"

fun truthy :: "js \<Rightarrow> bool" where
  "truthy JUndefined = False"
| "truthy JNull = False"
| "truthy (JBool b) = b"
| "truthy (JNum n) = (n \<noteq> 0)"
| "truthy (JStr s) = (s \<noteq> [])"
| "truthy (JArr xs) = True"
| "truthy (JObj kvs) = True"

text \<open>\<^verbatim>\<open>a || b\<close>\<close>

definition js_or :: "js \<Rightarrow> js \<Rightarrow> js" where
  "js_or a b = (if truthy a then a else b)"

text \<open>\<^verbatim>\<open>Array.isArray(v)\<close>, \<^verbatim>\<open>typeof v === "number"\<close>, \<^verbatim>\<open>typeof v === "object"\<close>\<close>

fun isArray :: "js \<Rightarrow> bool" where
  "isArray (JArr xs) = True"
| "isArray _ = False"

fun typeof_number :: "js \<Rightarrow> bool" where
  "typeof_number (JNum n) = True"
| "typeof_number _ = False"

fun typeof_object :: "js \<Rightarrow> bool" where
  "typeof_object JNull = True"
| "typeof_object (JArr xs) = True"
| "typeof_object (JObj kvs) = True"
| "typeof_object _ = False"

text \<open>\<^verbatim>\<open>Array.isArray(v) ? v : []\<close>\<close>

fun array_or_empty :: "js \<Rightarrow> js list" where
  "array_or_empty (JArr xs) = xs"
| "array_or_empty _ = []"

text \<open>
  Converting a value to a string throws a TypeError exactly when it meets an object whose
  own \<^verbatim>\<open>toString\<close> property hides the inherited method (a parsed value is never
  callable); an array joins the strings of its elements.
\<close>

fun toString_throws :: "js \<Rightarrow> bool" where
  "toString_throws (JObj kvs) = (map_of kvs ''toString'' \<noteq> None)"
| "toString_throws (JArr xs) = list_ex toString_throws xs"
| "toString_throws _ = False"

section \<open>Strings\<close>

text \<open>
  A string is a sequence of code units, modelled as 8-bit characters.
  \<^verbatim>\<open>s.trim()\<close> strips white space and line terminators from both ends.
\<close>

definition is_space :: "char \<Rightarrow> bool" where
  "is_space c = (of_char c \<in> set [9, 10, 11, 12, 13, 32, 160 :: nat])"

definition trim :: "string \<Rightarrow> string" where
  "trim s = rev (dropWhile is_space (rev (dropWhile is_space s)))"

fun starts_with :: "string \<Rightarrow> string \<Rightarrow> bool" where
  "starts_with s [] = True"
| "starts_with [] (p # ps) = False"
| "starts_with (c # cs) (p # ps) = (if c = p then starts_with cs ps else False)"

text \<open>\<^verbatim>\<open>s.includes(p)\<close>\<close>

fun str_includes :: "string \<Rightarrow> string \<Rightarrow> bool" where
  "str_includes [] p = (p = [])"
| "str_includes (c # cs) p = (if starts_with (c # cs) p then True else str_includes cs p)"

text \<open>The decimal text of an index or status code inside a template literal.\<close>

definition digit :: "nat \<Rightarrow> char" where
  "digit d = ''0123456789'' ! d"

fun show_nat :: "nat \<Rightarrow> string" where
  "show_nat n = (if n < 10 then [digit n] else show_nat (n div 10) @ [digit (n mod 10)])"

declare show_nat.simps [simp del]

section \<open>Error model\<close>

text \<open>
  What a \<^verbatim>\<open>catch\<close> can see: an \<^verbatim>\<open>ApiError(message, status, response)\<close>, or another
  Error of the host with its class and message. \<open>AbortError\<close> is the failure an aborted
  \<^verbatim>\<open>fetch\<close> rejects with. The message of an ApiError is the value handed to the
  constructor.
\<close>

datatype err_class = PlainError | TypeError | SyntaxError | RangeError | AbortError

datatype thrown =
    ApiError js nat js
  | JsError err_class string

text \<open>
  The TypeError of reading the property \<open>k\<close> from \<^verbatim>\<open>null\<close> or \<^verbatim>\<open>undefined\<close>, with the
  message V8 gives it.
\<close>

fun cannot_read :: "js \<Rightarrow> string \<Rightarrow> thrown" where
  "cannot_read JNull k =
     JsError TypeError (''Cannot read properties of null (reading '' @ [CHR 0x27] @ k @ [CHR 0x27] @ '')'')"
| "cannot_read v k =
     JsError TypeError
       (''Cannot read properties of undefined (reading '' @ [CHR 0x27] @ k @ [CHR 0x27] @ '')'')"

fun is_ApiError :: "thrown \<Rightarrow> bool" where
  "is_ApiError (ApiError m s r) = True"
| "is_ApiError (JsError c m) = False"

fun status_of :: "thrown \<Rightarrow> nat option" where
  "status_of (ApiError m s r) = Some s"
| "status_of (JsError c m) = None"

section \<open>Transport\<close>

definition FETCH_TIMEOUT :: nat where "FETCH_TIMEOUT = 30000"
definition UNIVERSITY_TIMEOUT :: nat where "UNIVERSITY_TIMEOUT = 100000"
definition MAX_RETRIES :: nat where "MAX_RETRIES = 2"

text \<open>
  A response carries its HTTP status and what \<^verbatim>\<open>response.json()\<close> will give: the
  parsed body, or the failure of the parse.
\<close>

record Response =
  status :: nat
  json :: "(err_class \<times> string) + js"

definition ok :: "Response \<Rightarrow> bool" where
  "ok r = (if status r < 200 then False else status r \<le> 299)"

text \<open>
  The network is a script: what the \<open>k\<close>-th call of \<^verbatim>\<open>fetch\<close> (counted from 0) within
  one request does, a rejection (class and message) or a response. An attempt that
  outlives the deadline is aborted and rejects with \<open>AbortError\<close>.
\<close>

type_synonym network = "nat \<Rightarrow> (err_class \<times> string) + Response"

record transport =
  outcome :: "thrown + Response"
  attempts :: nat
  waits :: "nat list"

text \<open>
  \<^verbatim>\<open>`Request timeout after ${timeout / 1000} seconds`\<close>, for the whole-second deadlines
  the callers pass.
\<close>

definition timeout_message :: "nat \<Rightarrow> string" where
  "timeout_message timeout = ''Request timeout after '' @ show_nat (timeout div 1000) @ '' seconds''"

text \<open>
  The loop of \<^verbatim>\<open>fetchWithTimeout\<close>, from iteration \<open>attempt\<close> on; \<open>ws\<close> are the
  delays (milliseconds) slept so far, in order.
\<close>

function fetch_loop :: "network \<Rightarrow> nat \<Rightarrow> nat \<Rightarrow> nat \<Rightarrow> nat list \<Rightarrow> transport" where
  "fetch_loop net timeout retries attempt ws =
     (if attempt \<le> retries then
        (case net attempt of
           Inr response \<Rightarrow> \<lparr>outcome = Inr response, attempts = Suc attempt, waits = ws\<rparr>
         | Inl (cls, msg) \<Rightarrow>
             if attempt = retries then
               \<lparr>outcome =
                  (if cls = AbortError
                   then Inl (ApiError (JStr (timeout_message timeout)) 408 JUndefined)
                   else Inl (JsError cls msg)),
                attempts = Suc attempt, waits = ws\<rparr>
             else fetch_loop net timeout retries (Suc attempt) (ws @ [2 ^ attempt * 1000]))
      else \<lparr>outcome = Inl (JsError PlainError ''Maximum retries exceeded''),
            attempts = attempt, waits = ws\<rparr>)"
  by pat_completeness auto
termination
  by (relation "measure (\<lambda>(net, timeout, retries, attempt, ws). Suc retries - attempt)") auto

declare fetch_loop.simps [simp del]

definition fetchWithTimeout :: "network \<Rightarrow> nat \<Rightarrow> nat \<Rightarrow> transport" where
  "fetchWithTimeout net timeout retries = fetch_loop net timeout retries 0 []"


section \<open>Endpoint client\<close>

text \<open>
  \<^verbatim>\<open>process.env.NEXT_PUBLIC_API_URL || "https://asv-8ghi.onrender.com"\<close>: the
  configured URL, when there is one and it is not empty.
\<close>

definition API_BASE_URL :: "string option \<Rightarrow> string" where
  "API_BASE_URL env =
     (case env of
        None \<Rightarrow> ''https://asv-8ghi.onrender.com''
      | Some u \<Rightarrow> if u = [] then ''https://asv-8ghi.onrender.com'' else u)"

text \<open>
  A request as handed to \<^verbatim>\<open>fetch\<close>. \<open>body\<close> is the value given to
  \<^verbatim>\<open>JSON.stringify\<close> (\<open>JUndefined\<close> for a request without body).
\<close>

record request =
  url :: string
  http_method :: string
  headers :: "(string \<times> string) list"
  body :: js

text \<open>
  What one call of an endpoint operation does: the value it returns or the failure it
  raises, the requests it issued (one per attempt of the transport) and the delays it
  slept between them.
\<close>

record 'a call =
  result :: "thrown + 'a"
  requests :: "request list"
  delays :: "nat list"

definition json_headers :: "(string \<times> string) list" where
  "json_headers = [(''Content-Type'', ''application/json''), (''Accept'', ''application/json'')]"

subsection \<open>Health and status\<close>

text \<open>The \<^verbatim>\<open>catch\<close> of \<^verbatim>\<open>getHealth\<close> and \<^verbatim>\<open>getStatus\<close>, with its fallback message.\<close>

fun rethrow_or_offline :: "string \<Rightarrow> thrown \<Rightarrow> thrown" where
  "rethrow_or_offline fallback (ApiError m s r) = ApiError m s r"
| "rethrow_or_offline fallback (JsError c m) = ApiError (JStr fallback) 0 JUndefined"

text \<open>The common body of the two operations: a GET with a 5 second deadline and 1 retry.\<close>

definition get_json :: "string \<Rightarrow> string \<Rightarrow> string \<Rightarrow> network \<Rightarrow> js call" where
  "get_json address not_ok fallback net =
     (let t = fetchWithTimeout net 5000 1 in
      \<lparr>result =
         (case outcome t of
            Inl e \<Rightarrow> Inl (rethrow_or_offline fallback e)
          | Inr response \<Rightarrow>
              if ok response then
                (case json response of
                   Inl (c, m) \<Rightarrow> Inl (rethrow_or_offline fallback (JsError c m))
                 | Inr d \<Rightarrow> Inr d)
              else Inl (rethrow_or_offline fallback
                          (ApiError (JStr not_ok) (status response) JUndefined))),
       requests = replicate (attempts t)
         \<lparr>url = address, http_method = ''GET'', headers = [], body = JUndefined\<rparr>,
       delays = waits t\<rparr>)"

definition getHealth :: "string \<Rightarrow> network \<Rightarrow> js call" where
  "getHealth base net =
     get_json (base @ ''/'') ''Failed to connect to API'' ''Cannot connect to backend server'' net"

definition getStatus :: "string \<Rightarrow> network \<Rightarrow> js call" where
  "getStatus base net =
     get_json (base @ ''/status'') ''Failed to get server status'' ''Cannot get server status'' net"

subsection \<open>Document analysis\<close>

text \<open>
  The file handed to \<^verbatim>\<open>analyzeDocument\<close>. \<open>encoded\<close> is what reading the file and
  encoding its bytes in base64 gives: the text, or the failure of that step (a read
  error, or the RangeError of \<^verbatim>\<open>String.fromCharCode(...bytes)\<close> on a long buffer).
\<close>

record File =
  name :: string
  file_size :: nat
  type :: string
  encoded :: "(err_class \<times> string) + string"

text \<open>The \<^verbatim>\<open>catch\<close> of \<^verbatim>\<open>analyzeDocument\<close>.\<close>

fun analyze_catch :: "thrown \<Rightarrow> thrown" where
  "analyze_catch (ApiError m s r) = ApiError m s r"
| "analyze_catch (JsError c m) =
     (if str_includes m ''timeout''
      then ApiError (JStr ''Analysis timeout - please try with a smaller document'') 408 JUndefined
      else ApiError (JStr (''Analysis failed: '' @ m)) 500 JUndefined)"

text \<open>
  \<^verbatim>\<open>new ApiError(message, status, response)\<close>: the constructor hands the message to
  \<^verbatim>\<open>Error\<close>, which converts it to a string; that conversion can throw.
\<close>

definition new_ApiError :: "js \<Rightarrow> nat \<Rightarrow> js \<Rightarrow> thrown" where
  "new_ApiError m s r =
     (if toString_throws m then JsError TypeError ''Cannot convert object to primitive value''
      else ApiError m s r)"

definition analyze_request :: "string \<Rightarrow> File \<Rightarrow> string \<Rightarrow> request" where
  "analyze_request base file base64Content =
     \<lparr>url = base @ ''/analyze'', http_method = ''POST'', headers = json_headers,
      body = JObj [(''filename'', JStr (name file)),
                   (''content'', JStr base64Content),
                   (''file_type'', JStr (if type file = ''application/pdf'' then ''pdf'' else ''txt''))]\<rparr>"

text \<open>What \<^verbatim>\<open>analyzeDocument\<close> does with the response of the transport, inside its \<^verbatim>\<open>try\<close>.\<close>

definition analyze_response :: "Response \<Rightarrow> thrown + js" where
  "analyze_response response =
     (if ok response then
        (case json response of
           Inl (c, m) \<Rightarrow> Inl (JsError c m)
         | Inr responseData \<Rightarrow>
             if nullish responseData then Inl (cannot_read responseData ''summary'')
             else if truthy (js_get responseData ''summary'') then
               (if truthy (js_get responseData ''claims'') then Inr responseData
                else Inl (ApiError (JStr ''Invalid response structure from backend'') 500 JUndefined))
             else Inl (ApiError (JStr ''Invalid response structure from backend'') 500 JUndefined))
      else
        (let errorData = (case json response of Inl e \<Rightarrow> JObj [] | Inr d \<Rightarrow> d) in
         if nullish errorData then Inl (cannot_read errorData ''detail'')
         else Inl (new_ApiError
                (js_or (js_get errorData ''detail'')
                   (js_or (js_get errorData ''error'')
                      (JStr (''Analysis failed with status '' @ show_nat (status response)))))
                (status response) errorData)))"

definition analyzeDocument :: "string \<Rightarrow> network \<Rightarrow> File \<Rightarrow> js call" where
  "analyzeDocument base net file =
     (case encoded file of
        Inl (c, m) \<Rightarrow> \<lparr>result = Inl (analyze_catch (JsError c m)), requests = [], delays = []\<rparr>
      | Inr base64Content \<Rightarrow>
          (let t = fetchWithTimeout net FETCH_TIMEOUT MAX_RETRIES in
           \<lparr>result =
              (case outcome t of
                 Inl e \<Rightarrow> Inl (analyze_catch e)
               | Inr response \<Rightarrow>
                   (case analyze_response response of
                      Inl e \<Rightarrow> Inl (analyze_catch e)
                    | Inr responseData \<Rightarrow> Inr responseData)),
            requests = replicate (attempts t) (analyze_request base file base64Content),
            delays = waits t\<rparr>))"

subsection \<open>University search\<close>

record ReviewSummary =
  total_negative_reviews :: js
  total_positive_reviews :: js
  average_rating :: js
  common_complaints :: js
  common_praises :: js

record UniversityReviewsResponse =
  university_name :: js
  nirf_ranking :: js
  negative_reviews :: "js list"
  positive_reviews :: "js list"
  review_summary :: ReviewSummary
  sources :: "js list"
  analysis_timestamp :: js
  search_status :: js
  error :: js
  message :: js
  suggestions :: js
  api_version :: js
  search_method :: js
  processing_time :: js
  debug_info :: js

text \<open>
  The object literal \<^verbatim>\<open>normalizedResponse\<close>. \<open>now\<close> is the text of
  \<^verbatim>\<open>new Date().toISOString()\<close> at the time of the call.
\<close>

definition normalizedResponse :: "string \<Rightarrow> string \<Rightarrow> js \<Rightarrow> UniversityReviewsResponse" where
  "normalizedResponse now universityName responseData =
     \<lparr>university_name = js_or (js_get responseData ''university_name'') (JStr universityName),
      nirf_ranking = js_or (js_get responseData ''nirf_ranking'') JNull,
      negative_reviews = array_or_empty (js_get responseData ''negative_reviews''),
      positive_reviews = array_or_empty (js_get responseData ''positive_reviews''),
      review_summary =
        \<lparr>total_negative_reviews =
           js_or (js_get (js_get responseData ''review_summary'') ''total_negative_reviews'') (JNum 0),
         total_positive_reviews =
           js_or (js_get (js_get responseData ''review_summary'') ''total_positive_reviews'') (JNum 0),
         average_rating =
           js_or (js_get (js_get responseData ''review_summary'') ''average_rating'') (JNum 0),
         common_complaints =
           js_or (js_get (js_get responseData ''review_summary'') ''common_complaints'') (JArr []),
         common_praises =
           js_or (js_get (js_get responseData ''review_summary'') ''common_praises'') (JArr [])\<rparr>,
      sources = array_or_empty (js_get responseData ''sources''),
      analysis_timestamp = js_or (js_get responseData ''analysis_timestamp'') (JStr now),
      search_status = js_or (js_get responseData ''search_status'') (JStr ''success''),
      error = js_get responseData ''error'',
      message = js_get responseData ''message'',
      suggestions = js_get responseData ''suggestions'',
      api_version = js_get responseData ''api_version'',
      search_method = js_get responseData ''search_method'',
      processing_time = js_get responseData ''processing_time'',
      debug_info = js_get responseData ''debug_info''\<rparr>"

text \<open>The \<^verbatim>\<open>catch\<close> of \<^verbatim>\<open>searchUniversityReviews\<close>.\<close>

fun search_catch :: "thrown \<Rightarrow> thrown" where
  "search_catch (ApiError m s r) = ApiError m s r"
| "search_catch (JsError c m) =
     (if str_includes m ''timeout''
      then ApiError (JStr ''University search timeout - please try again'') 408 JUndefined
      else if c = TypeError then
        (if str_includes m ''fetch''
         then ApiError
           (JStr ''Unable to connect to the server. Please check your internet connection.'')
           0 JUndefined
         else ApiError (JStr (''Unexpected error: '' @ m)) 500 JUndefined)
      else if c = SyntaxError
      then ApiError (JStr ''Invalid response format from server'') 500 JUndefined
      else ApiError (JStr (''Unexpected error: '' @ m)) 500 JUndefined)"

definition search_request :: "string \<Rightarrow> string \<Rightarrow> request" where
  "search_request base universityName =
     \<lparr>url = base @ ''/api/university-reviews'', http_method = ''POST'', headers = json_headers,
      body = JObj [(''university_name'', JStr (trim universityName)),
                   (''include_debug'', JBool False)]\<rparr>"

text \<open>What \<^verbatim>\<open>searchUniversityReviews\<close> does with the response, inside its \<^verbatim>\<open>try\<close>.\<close>

definition search_response ::
  "string \<Rightarrow> string \<Rightarrow> Response \<Rightarrow> thrown + UniversityReviewsResponse" where
  "search_response now universityName response =
     (case json response of
        Inl (c, m) \<Rightarrow> Inl (JsError c m)
      | Inr responseData \<Rightarrow>
          if nullish responseData then Inl (cannot_read responseData ''search_status'')
          else if ok response then Inr (normalizedResponse now universityName responseData)
          else if truthy (js_get responseData ''search_status'')
          then Inr (normalizedResponse now universityName responseData)
          else Inl (new_ApiError
                 (js_or (js_get responseData ''detail'')
                    (js_or (js_get responseData ''error'')
                       (JStr (''Request failed with status '' @ show_nat (status response)))))
                 (status response) responseData))"

definition searchUniversityReviews ::
  "string \<Rightarrow> string \<Rightarrow> network \<Rightarrow> string \<Rightarrow> UniversityReviewsResponse call" where
  "searchUniversityReviews base now net universityName =
     (if trim universityName = [] then
        \<lparr>result = Inl (ApiError (JStr ''University name is required'') 400 JUndefined),
         requests = [], delays = []\<rparr>
      else if length universityName < 3 then
        \<lparr>result = Inl (ApiError (JStr ''University name must be at least 3 characters long'')
                         400 JUndefined),
         requests = [], delays = []\<rparr>
      else
        (let t = fetchWithTimeout net UNIVERSITY_TIMEOUT MAX_RETRIES in
         \<lparr>result =
            (case outcome t of
               Inl e \<Rightarrow> Inl (search_catch e)
             | Inr response \<Rightarrow>
                 (case search_response now universityName response of
                    Inl e \<Rightarrow> Inl (search_catch e)
                  | Inr normalized \<Rightarrow> Inr normalized)),
          requests = replicate (attempts t) (search_request base universityName),
          delays = waits t\<rparr>))"


section \<open>Response normalizer\<close>

subsection \<open>Lookup in an object literal\<close>

text \<open>
  \<^verbatim>\<open>consistencyMap\<close> and \<^verbatim>\<open>trustScoreMap\<close> are object literals indexed by the raw
  verdict. Such a lookup finds the literal's own entries first and then the members every
  object inherits from \<^verbatim>\<open>Object.prototype\<close>; all of those are functions or objects.
\<close>

definition Object_prototype :: "string list" where
  "Object_prototype =
     [''constructor'', ''__defineGetter__'', ''__defineSetter__'', ''hasOwnProperty'',
      ''__lookupGetter__'', ''__lookupSetter__'', ''isPrototypeOf'', ''propertyIsEnumerable'',
      ''toString'', ''valueOf'', ''__proto__'', ''toLocaleString'']"

text \<open>A value of the running program: a JSON-like value, or an inherited member by name.\<close>

datatype jsval = Json js | Inherited string

text \<open>
  The property key a value converts to, once \<open>toString_throws\<close> has excluded a throw:
  \<open>Some s\<close> for the key \<open>s\<close>; \<open>None\<close> for a key that names no entry of the two
  literals and no member of \<^verbatim>\<open>Object.prototype\<close> (the text of a number, or the text of
  an array of several elements, which has a comma).
\<close>

fun property_key :: "js \<Rightarrow> string option" where
  "property_key JUndefined = Some ''undefined''"
| "property_key JNull = Some ''null''"
| "property_key (JBool b) = Some (if b then ''true'' else ''false'')"
| "property_key (JNum n) = None"
| "property_key (JStr s) = Some s"
| "property_key (JObj kvs) = Some ''[object Object]''"
| "property_key (JArr []) = Some []"
| "property_key (JArr [x]) = (if nullish x then Some [] else property_key x)"
| "property_key (JArr (x # y # zs)) = None"

text \<open>\<^verbatim>\<open>literal[key]\<close>\<close>

fun lookup :: "(string \<times> js) list \<Rightarrow> string option \<Rightarrow> jsval" where
  "lookup literal None = Json JUndefined"
| "lookup literal (Some k) =
     (case map_of literal k of
        Some v \<Rightarrow> Json v
      | None \<Rightarrow> if k \<in> set Object_prototype then Inherited k else Json JUndefined)"

text \<open>\<^verbatim>\<open>literal[key] || fallback\<close>\<close>

fun or_default :: "jsval \<Rightarrow> js \<Rightarrow> jsval" where
  "or_default (Json v) fallback = Json (js_or v fallback)"
| "or_default (Inherited k) fallback = Inherited k"

subsection \<open>Frontend types\<close>

record Evidence =
  evidence_id :: string
  evidence_text :: js
  source :: js
  evidence_url :: js
  relevanceScore :: js

text \<open>
  The value of \<^verbatim>\<open>(chunk || 0) + 1\<close>: \<open>Added v\<close> is the number or string \<open>v\<close> the
  addition gives; \<open>Appended v\<close> is the text of the array or object \<open>v\<close> followed by
  \<^verbatim>\<open>"1"\<close>.
\<close>

datatype plus_one = Added js | Appended js

record Claim =
  claim_id :: string
  text_of :: js
  category :: js
  consistency :: jsval
  trustScore :: jsval
  explanation :: js
  evidence :: "Evidence list"
  pageNumber :: plus_one
  reviewStatus :: "string option"
  reviewNotes :: "string option"
  reviewReason :: "string option"

record Summary =
  totalClaims :: js
  processingTime :: js
  documentName :: js
  timestamp :: js
  analysisMode :: js

record AnalysisResult =
  summary :: Summary
  claims :: "Claim list"

subsection \<open>One claim\<close>

definition consistencyMap :: "(string \<times> js) list" where
  "consistencyMap =
     [(''Confirmed'', JStr ''Supported''),
      (''Supported'', JStr ''Supported''),
      (''Contradicted'', JStr ''Contradicted''),
      (''Unverifiable'', JStr ''Unverifiable''),
      (''Unsupported'', JStr ''Unsupported'')]"

text \<open>
  \<^verbatim>\<open>Math.random()\<close> is a source \<open>rnd\<close> of numbers in \<open>[0, 1)\<close>, read in order from
  position \<open>p\<close>. Building \<^verbatim>\<open>trustScoreMap\<close> draws five of them.
\<close>

definition random_int :: "rat \<Rightarrow> int \<Rightarrow> int \<Rightarrow> js" where
  "random_int r n lo = JNum (of_int (\<lfloor>r * of_int n\<rfloor> + lo))"

definition trustScoreMap :: "(nat \<Rightarrow> rat) \<Rightarrow> nat \<Rightarrow> (string \<times> js) list" where
  "trustScoreMap rnd p =
     [(''Confirmed'', random_int (rnd p) 16 80),
      (''Supported'', random_int (rnd (p + 1)) 16 75),
      (''Contradicted'', random_int (rnd (p + 2)) 21 10),
      (''Unverifiable'', random_int (rnd (p + 3)) 21 40),
      (''Unsupported'', random_int (rnd (p + 4)) 21 25)]"

text \<open>\<^verbatim>\<open>apiClaim.trustScore && typeof apiClaim.trustScore === "number"\<close>\<close>

definition supplied :: "js \<Rightarrow> bool" where
  "supplied score = (if truthy score then typeof_number score else False)"

fun chunk_plus_one :: "js \<Rightarrow> plus_one" where
  "chunk_plus_one JUndefined = Added (JNum 1)"
| "chunk_plus_one JNull = Added (JNum 1)"
| "chunk_plus_one (JBool b) = Added (JNum (if b then 2 else 1))"
| "chunk_plus_one (JNum n) = Added (JNum (n + 1))"
| "chunk_plus_one (JStr s) = (if s = [] then Added (JNum 1) else Added (JStr (s @ ''1'')))"
| "chunk_plus_one (JArr xs) = Appended (JArr xs)"
| "chunk_plus_one (JObj kvs) = Appended (JObj kvs)"

text \<open>One element pushed by the \<^verbatim>\<open>forEach\<close> over the first three web-evidence records.\<close>

definition web_evidence_item :: "nat \<Rightarrow> nat \<Rightarrow> js \<Rightarrow> Evidence" where
  "web_evidence_item index webIndex webEv =
     \<lparr>evidence_id = ''evidence-'' @ show_nat index @ ''-web-'' @ show_nat webIndex,
      evidence_text = js_get webEv ''snippet'',
      source = js_get webEv ''title'',
      evidence_url = js_or (js_get webEv ''url'') (JStr ''#''),
      relevanceScore = js_or (js_get webEv ''relevance_score'') (JNum 75)\<rparr>"

fun web_evidence_items :: "nat \<Rightarrow> nat \<Rightarrow> js list \<Rightarrow> Evidence list" where
  "web_evidence_items index webIndex [] = []"
| "web_evidence_items index webIndex (webEv # rest) =
     web_evidence_item index webIndex webEv # web_evidence_items index (Suc webIndex) rest"

text \<open>
  \<^verbatim>\<open>apiClaim.web_evidence.slice(0, 3)\<close> when the field is truthy and an array, no
  element otherwise.
\<close>

definition web_slice :: "js \<Rightarrow> js list" where
  "web_slice apiClaim = take 3 (array_or_empty (js_get apiClaim ''web_evidence''))"

text \<open>
  The callback of \<^verbatim>\<open>apiResponse.claims.map\<close>, with the position in the random source
  after it. The reads that throw a TypeError are tested in the order the source meets
  them.
\<close>

definition mapClaim :: "(nat \<Rightarrow> rat) \<Rightarrow> nat \<Rightarrow> nat \<Rightarrow> js \<Rightarrow> thrown + (Claim \<times> nat)" where
  "mapClaim rnd p index apiClaim =
     (let score = js_get apiClaim ''trustScore'';
          verdict = js_get apiClaim ''verdict'';
          metadata = js_get apiClaim ''metadata'';
          chunk = js_get metadata ''source_chunk_id''
      in
      if nullish apiClaim then Inl (cannot_read apiClaim ''trustScore'')
      else if (if supplied score then False else toString_throws verdict)
      then Inl (JsError TypeError ''Cannot convert object to primitive value'')
      else if nullish metadata then Inl (cannot_read metadata ''source'')
      else if list_ex nullish (web_slice apiClaim) then Inl (cannot_read JNull ''snippet'')
      else if toString_throws verdict
      then Inl (JsError TypeError ''Cannot convert object to primitive value'')
      else if toString_throws chunk
      then Inl (JsError TypeError ''Cannot convert object to primitive value'')
      else Inr
        (\<lparr>claim_id = ''claim-'' @ show_nat index,
          text_of = js_get apiClaim ''claim_text'',
          category = js_get apiClaim ''category'',
          consistency =
            or_default (lookup consistencyMap (property_key verdict)) (JStr ''Unverifiable''),
          trustScore =
            (if supplied score then Json score
             else or_default (lookup (trustScoreMap rnd p) (property_key verdict)) (JNum 50)),
          explanation = js_get apiClaim ''verdict_reasoning'',
          evidence =
            \<lparr>evidence_id = ''evidence-'' @ show_nat index @ ''-1'',
             evidence_text = js_get apiClaim ''evidence_summary'',
             source = js_get metadata ''source'',
             evidence_url = JStr ''#'',
             relevanceScore = JNum 85\<rparr>
            # web_evidence_items index 0 (web_slice apiClaim),
          pageNumber = chunk_plus_one chunk,
          reviewStatus = Some ''pending'',
          reviewNotes = None,
          reviewReason = None\<rparr>,
         if supplied score then p else p + 5))"

subsection \<open>The whole payload\<close>

fun mapClaims :: "(nat \<Rightarrow> rat) \<Rightarrow> nat \<Rightarrow> nat \<Rightarrow> js list \<Rightarrow> thrown + Claim list" where
  "mapClaims rnd p index [] = Inr []"
| "mapClaims rnd p index (apiClaim # rest) =
     (case mapClaim rnd p index apiClaim of
        Inl e \<Rightarrow> Inl e
      | Inr (claim, p') \<Rightarrow>
          (case mapClaims rnd p' (Suc index) rest of
             Inl e \<Rightarrow> Inl e
           | Inr mapped \<Rightarrow> Inr (claim # mapped)))"

definition mapApiResponseToFrontend :: "(nat \<Rightarrow> rat) \<Rightarrow> js \<Rightarrow> thrown + AnalysisResult" where
  "mapApiResponseToFrontend rnd apiResponse =
     (if truthy apiResponse then
        (if typeof_object apiResponse then
           (if truthy (js_get apiResponse ''summary'') then
              (if truthy (js_get apiResponse ''claims'') then
                 (if isArray (js_get apiResponse ''claims'') then
                    (case mapClaims rnd 0 0 (array_or_empty (js_get apiResponse ''claims'')) of
                       Inl e \<Rightarrow> Inl e
                     | Inr mapped \<Rightarrow>
                         Inr \<lparr>summary =
                                \<lparr>totalClaims = js_get (js_get apiResponse ''summary'') ''total_claims'',
                                 processingTime =
                                   js_get (js_get apiResponse ''summary'') ''processing_time_seconds'',
                                 documentName = js_get (js_get apiResponse ''summary'') ''document_name'',
                                 timestamp = js_get (js_get apiResponse ''summary'') ''timestamp'',
                                 analysisMode = js_get (js_get apiResponse ''summary'') ''analysis_mode''\<rparr>,
                              claims = mapped\<rparr>)
                  else Inl (JsError PlainError
                              ''Invalid API response: Missing or invalid claims array''))
               else Inl (JsError PlainError
                           ''Invalid API response: Missing or invalid claims array''))
            else Inl (JsError PlainError ''Invalid API response: Missing summary field''))
         else Inl (JsError PlainError ''Invalid API response: Response is not an object''))
      else Inl (JsError PlainError ''Invalid API response: Response is not an object''))"


section \<open>Well-formed claims, failing transports, scenarios\<close>

text \<open>
  A raw claim as \<^verbatim>\<open>interface ApiClaim\<close> declares it, as far as the mapping depends on
  it: an object with a string verdict, a metadata object whose chunk index is a number
  (or absent), and web evidence that, when it is an array, holds objects.
\<close>

fun is_object :: "js \<Rightarrow> bool" where
  "is_object (JObj kvs) = True"
| "is_object _ = False"

fun is_string :: "js \<Rightarrow> bool" where
  "is_string (JStr s) = True"
| "is_string _ = False"

fun number_or_absent :: "js \<Rightarrow> bool" where
  "number_or_absent (JNum n) = True"
| "number_or_absent JUndefined = True"
| "number_or_absent _ = False"

definition well_formed :: "js \<Rightarrow> bool" where
  "well_formed apiClaim =
     (is_object apiClaim \<and> is_string (js_get apiClaim ''verdict'') \<and>
      is_object (js_get apiClaim ''metadata'') \<and>
      number_or_absent (js_get (js_get apiClaim ''metadata'') ''source_chunk_id'') \<and>
      list_all is_object (array_or_empty (js_get apiClaim ''web_evidence'')))"

text \<open>A random source is one of \<^verbatim>\<open>Math.random\<close> when all its values lie in \<open>[0, 1)\<close>.\<close>

definition unit_interval :: "(nat \<Rightarrow> rat) \<Rightarrow> bool" where
  "unit_interval rnd = (\<forall>k. 0 \<le> rnd k \<and> rnd k < 1)"

text \<open>
  Every attempt of a budget of \<open>retries\<close> retries is rejected, the last one with class
  \<open>cls\<close> and message \<open>msg\<close>.
\<close>

definition fails_with :: "network \<Rightarrow> nat \<Rightarrow> err_class \<Rightarrow> string \<Rightarrow> bool" where
  "fails_with net retries cls msg =
     (if list_all (\<lambda>k. isl (net k)) [0..<retries] then net retries = Inl (cls, msg) else False)"

text \<open>Networks: two rejections and then a reply; no connection; every attempt aborted.\<close>

definition flaky :: network where
  "flaky k = (if k < 2 then Inl (TypeError, ''Failed to fetch'')
              else Inr \<lparr>status = 200, json = Inr (JObj [])\<rparr>)"

definition offline :: network where
  "offline k = Inl (TypeError, ''Failed to fetch'')"

definition stalled :: network where
  "stalled k = Inl (AbortError, ''The user aborted a request.'')"

text \<open>A backend that answers every attempt with the given status and JSON body.\<close>

definition replies :: "nat \<Rightarrow> js \<Rightarrow> network" where
  "replies code payload k = Inr \<lparr>status = code, json = Inr payload\<rparr>"

text \<open>A backend whose every answer has the given status and a body that is not JSON.\<close>

definition garbled :: "nat \<Rightarrow> network" where
  "garbled code k =
     Inr \<lparr>status = code, json = Inl (SyntaxError, ''Unexpected token < in JSON at position 0'')\<rparr>"

text \<open>No connection, as a browser reports it whose message does not mention \<^verbatim>\<open>fetch\<close>.\<close>

definition unreachable :: network where
  "unreachable k = Inl (TypeError, ''Load failed'')"

definition localhost :: string where
  "localhost = ''http://localhost:8000''"

definition noon :: string where
  "noon = ''2025-01-01T12:00:00.000Z''"

definition report_txt :: File where
  "report_txt = \<lparr>name = ''report.txt'', file_size = 2048, type = ''text/plain'',
                  encoded = Inr ''cmVwb3J0''\<rparr>"

text \<open>A random source that always gives one half.\<close>

definition half :: "nat \<Rightarrow> rat" where
  "half k = 1 / 2"

text \<open>
  A raw claim with four web-evidence records, and a raw claim with a given verdict and
  trust score, each inside a payload of one claim.
\<close>

definition web_claim :: js where
  "web_claim = JObj
     [(''claim_text'', JStr ''X''), (''category'', JStr ''Financial''),
      (''verdict'', JStr ''Supported''), (''evidence_summary'', JStr ''E''),
      (''verdict_reasoning'', JStr ''R''), (''source_context'', JStr ''S''),
      (''web_evidence'', JArr
         [JObj [(''title'', JStr ''a''), (''url'', JStr ''u''), (''snippet'', JStr ''s''),
                (''relevance_score'', JNum (9 / 10))],
          JObj [(''title'', JStr ''b''), (''snippet'', JStr ''t''), (''relevance_score'', JNum 0)],
          JObj [(''title'', JStr ''c'')],
          JObj [(''title'', JStr ''d''), (''relevance_score'', JNum 1)]]),
      (''metadata'', JObj [(''source'', JStr ''doc''), (''source_chunk_id'', JNum 0)])]"

definition web_payload :: js where
  "web_payload =
     JObj [(''summary'', JObj [(''total_claims'', JNum 1)]), (''claims'', JArr [web_claim])]"

definition scored_claim :: "js \<Rightarrow> js \<Rightarrow> js" where
  "scored_claim verdict score = JObj
     [(''claim_text'', JStr ''X''), (''category'', JStr ''Financial''),
      (''verdict'', verdict), (''evidence_summary'', JStr ''E''),
      (''verdict_reasoning'', JStr ''R''), (''source_context'', JStr ''S''),
      (''trustScore'', score),
      (''metadata'', JObj [(''source'', JStr ''doc''), (''source_chunk_id'', JNum 0)])]"

definition scored_payload :: "js \<Rightarrow> js \<Rightarrow> js" where
  "scored_payload verdict score =
     JObj [(''summary'', JObj [(''total_claims'', JNum 1)]),
           (''claims'', JArr [scored_claim verdict score])]"

section \<open>Transport: attempts and backoff\<close>

lemma fetch_loop_reply:
  "attempt \<le> retries \<Longrightarrow> net attempt = Inr response \<Longrightarrow>
   fetch_loop net timeout retries attempt ws =
     \<lparr>outcome = Inr response, attempts = Suc attempt, waits = ws\<rparr>"
  by (subst fetch_loop.simps) simp

lemma fetch_loop_last:
  "net retries = Inl (cls, msg) \<Longrightarrow>
   fetch_loop net timeout retries retries ws =
     \<lparr>outcome = (if cls = AbortError
                  then Inl (ApiError (JStr (timeout_message timeout)) 408 JUndefined)
                  else Inl (JsError cls msg)),
      attempts = Suc retries, waits = ws\<rparr>"
  by (subst fetch_loop.simps) simp

lemma fetch_loop_retry:
  "attempt < retries \<Longrightarrow> net attempt = Inl failure \<Longrightarrow>
   fetch_loop net timeout retries attempt ws =
     fetch_loop net timeout retries (Suc attempt) (ws @ [2 ^ attempt * 1000])"
  by (subst fetch_loop.simps) (simp split: prod.splits)

text \<open>What the loop does from iteration \<open>attempt\<close> on, by induction on the iterations left.\<close>

lemma fetch_loop_run:
  "attempt \<le> retries \<Longrightarrow>
   (let t = fetch_loop net timeout retries attempt ws in
    attempt < attempts t \<and> attempts t \<le> Suc retries \<and>
    waits t = ws @ map (\<lambda>k. 2 ^ k * 1000) [attempt..<attempts t - 1] \<and>
    list_all (\<lambda>k. isl (net k)) [attempt..<attempts t - 1] \<and>
    (case net (attempts t - 1) of
       Inr response \<Rightarrow> outcome t = Inr response
     | Inl (cls, msg) \<Rightarrow> attempts t = Suc retries \<and>
         outcome t = (if cls = AbortError
                  then Inl (ApiError (JStr (timeout_message timeout)) 408 JUndefined)
                  else Inl (JsError cls msg))))"
proof (induction "retries - attempt" arbitrary: attempt ws)
  case 0
  then have eq: "attempt = retries" by simp
  show ?case
  proof (cases "net retries")
    case (Inr response)
    then show ?thesis unfolding eq by (simp add: fetch_loop_reply)
  next
    case (Inl failure)
    then show ?thesis unfolding eq by (cases failure) (simp add: fetch_loop_last)
  qed
next
  case (Suc d)
  then have lt: "attempt < retries" by simp
  show ?case
  proof (cases "net attempt")
    case (Inr response)
    with lt show ?thesis by (simp add: fetch_loop_reply)
  next
    case (Inl failure)
    from Suc.hyps(2) lt have d: "d = retries - Suc attempt" and le: "Suc attempt \<le> retries"
      by simp_all
    note IH = Suc.hyps(1) [OF d le, of "ws @ [2 ^ attempt * 1000]"]
    have step: "fetch_loop net timeout retries attempt ws =
      fetch_loop net timeout retries (Suc attempt) (ws @ [2 ^ attempt * 1000])"
      using lt Inl by (simp add: fetch_loop_retry)
    define t where "t = fetch_loop net timeout retries (Suc attempt) (ws @ [2 ^ attempt * 1000])"
    from IH have a: "Suc attempt < attempts t" and b: "attempts t \<le> Suc retries"
      and w: "waits t = (ws @ [2 ^ attempt * 1000])
                @ map (\<lambda>k. 2 ^ k * 1000) [Suc attempt..<attempts t - 1]"
      and f: "list_all (\<lambda>k. isl (net k)) [Suc attempt..<attempts t - 1]"
      and l: "(case net (attempts t - 1) of
         Inr response \<Rightarrow> outcome t = Inr response
       | Inl (cls, msg) \<Rightarrow> attempts t = Suc retries \<and>
           outcome t = (if cls = AbortError
                    then Inl (ApiError (JStr (timeout_message timeout)) 408 JUndefined)
                    else Inl (JsError cls msg)))"
      unfolding t_def Let_def by simp_all
    from a have up: "[attempt..<attempts t - Suc 0] = attempt # [Suc attempt..<attempts t - Suc 0]"
      by (simp add: upt_conv_Cons)
    show ?thesis
      unfolding step t_def [symmetric] Let_def
      using a b w f l Inl by (simp add: up)
  qed
qed

lemma fetchWithTimeout_run:
  "(let t = fetchWithTimeout net timeout retries in
    0 < attempts t \<and> attempts t \<le> Suc retries \<and>
    waits t = map (\<lambda>k. 2 ^ k * 1000) [0..<attempts t - 1] \<and>
    list_all (\<lambda>k. isl (net k)) [0..<attempts t - 1] \<and>
    (case net (attempts t - 1) of
       Inr response \<Rightarrow> outcome t = Inr response
     | Inl (cls, msg) \<Rightarrow> attempts t = Suc retries \<and>
         outcome t = (if cls = AbortError
                  then Inl (ApiError (JStr (timeout_message timeout)) 408 JUndefined)
                  else Inl (JsError cls msg))))"
  using fetch_loop_run [of 0 retries net timeout "[]"]
  unfolding fetchWithTimeout_def by simp

lemma attempts_pos: "0 < attempts (fetchWithTimeout net timeout retries)"
  using fetchWithTimeout_run [of net timeout retries] by (simp add: Let_def)

lemma transport_fails_with:
  assumes "fails_with net retries cls msg"
  shows "outcome (fetchWithTimeout net timeout retries) =
           (if cls = AbortError
            then Inl (ApiError (JStr (timeout_message timeout)) 408 JUndefined)
            else Inl (JsError cls msg))"
proof -
  define t where "t = fetchWithTimeout net timeout retries"
  from assms have all: "\<And>k. k < retries \<Longrightarrow> isl (net k)"
    and last: "net retries = Inl (cls, msg)"
    by (simp_all add: fails_with_def list_all_iff split: if_splits)
  from fetchWithTimeout_run [of net timeout retries]
  have pos: "0 < attempts t" and le: "attempts t \<le> Suc retries"
    and c: "(case net (attempts t - 1) of
       Inr response \<Rightarrow> outcome t = Inr response
     | Inl (cls, msg) \<Rightarrow> attempts t = Suc retries \<and>
         outcome t = (if cls = AbortError
                  then Inl (ApiError (JStr (timeout_message timeout)) 408 JUndefined)
                  else Inl (JsError cls msg)))"
    unfolding t_def Let_def by simp_all
  have "attempts t = Suc retries"
  proof (cases "attempts t - 1 < retries")
    case True
    from all [OF True] c show ?thesis by (auto simp: isl_def split: prod.splits)
  next
    case False
    with pos le show ?thesis by simp
  qed
  with c last show ?thesis unfolding t_def by simp
qed

lemma flaky_transport:
  "fetchWithTimeout flaky timeout 2 =
     \<lparr>outcome = Inr \<lparr>status = 200, json = Inr (JObj [])\<rparr>, attempts = 3, waits = [1000, 2000]\<rparr>"
  by (simp add: fetchWithTimeout_def fetch_loop.simps flaky_def)

text \<open>
  C6, as the code has it. A call with \<open>retries = n\<close> makes at least one and at most
  \<open>n + 1\<close> attempts; every attempt before the last one threw, and the call stops short of
  \<open>n + 1\<close> attempts only on a reply, so any thrown failure is retried while attempts
  remain. The delays slept are \<open>2^0, 2^1, \<dots>\<close> seconds in this order: the delay after the
  \<open>k\<close>-th failed attempt (counted from 1), which is the delay before attempt \<open>k + 1\<close>,
  is \<open>2^(k-1)\<close> seconds. With two retries, a network that rejects the first two attempts
  and replies to the third gives that reply after exactly the two delays of 1 and 2
  seconds.
\<close>

theorem fetchWithTimeout_backoff:
  "0 < attempts (fetchWithTimeout net timeout n)
   \<and> attempts (fetchWithTimeout net timeout n) \<le> n + 1
   \<and> list_all (\<lambda>k. isl (net k)) [0..<attempts (fetchWithTimeout net timeout n) - 1]
   \<and> (attempts (fetchWithTimeout net timeout n) < n + 1 \<longrightarrow>
        (\<exists>response. net (attempts (fetchWithTimeout net timeout n) - 1) = Inr response
           \<and> outcome (fetchWithTimeout net timeout n) = Inr response))
   \<and> waits (fetchWithTimeout net timeout n) =
        map (\<lambda>k. 2 ^ k * 1000) [0..<attempts (fetchWithTimeout net timeout n) - 1]
   \<and> (\<forall>k. 1 \<le> k \<and> k < attempts (fetchWithTimeout net timeout n) \<longrightarrow>
          waits (fetchWithTimeout net timeout n) ! (k - 1) = 2 ^ (k - 1) * 1000)
   \<and> (isl (net 0) \<and> isl (net 1) \<and> net 2 = Inr reply \<longrightarrow>
        fetchWithTimeout net timeout 2 =
          \<lparr>outcome = Inr reply, attempts = 3, waits = [1000, 2000]\<rparr>)"
proof -
  define t where "t = fetchWithTimeout net timeout n"
  from fetchWithTimeout_run [of net timeout n]
  have pos: "0 < attempts t" and le: "attempts t \<le> Suc n"
    and w: "waits t = map (\<lambda>k. 2 ^ k * 1000) [0..<attempts t - 1]"
    and f: "list_all (\<lambda>k. isl (net k)) [0..<attempts t - 1]"
    and c: "(case net (attempts t - 1) of
       Inr response \<Rightarrow> outcome t = Inr response
     | Inl (cls, msg) \<Rightarrow> attempts t = Suc n \<and>
         outcome t = (if cls = AbortError
                  then Inl (ApiError (JStr (timeout_message timeout)) 408 JUndefined)
                  else Inl (JsError cls msg)))"
    unfolding t_def Let_def by simp_all
  have early: "\<exists>response. net (attempts t - 1) = Inr response \<and> outcome t = Inr response"
    if "attempts t < n + 1"
    using c that by (cases "net (attempts t - 1)") (auto split: prod.splits)
  have nth: "waits t ! (k - 1) = 2 ^ (k - 1) * 1000" if "1 \<le> k \<and> k < attempts t" for k
  proof -
    from that have "k - 1 < attempts t - 1" by arith
    then show ?thesis unfolding w by (simp del: upt_Suc)
  qed
  have scenario: "fetchWithTimeout net timeout 2 =
      \<lparr>outcome = Inr reply, attempts = 3, waits = [1000, 2000]\<rparr>"
    if "isl (net 0) \<and> isl (net 1) \<and> net 2 = Inr reply"
  proof -
    from that obtain f0 f1 where n: "net 0 = Inl f0" "net 1 = Inl f1" "net 2 = Inr reply"
      by (auto simp: isl_def)
    have "fetch_loop net timeout 2 0 [] = fetch_loop net timeout 2 (Suc 0) ([] @ [2 ^ 0 * 1000])"
      using n(1) by (intro fetch_loop_retry) simp_all
    also have "\<dots> = fetch_loop net timeout 2 (Suc (Suc 0)) (([] @ [2 ^ 0 * 1000]) @ [2 ^ Suc 0 * 1000])"
      using n(2) by (intro fetch_loop_retry) simp_all
    also have "\<dots> = \<lparr>outcome = Inr reply, attempts = Suc (Suc (Suc 0)),
                      waits = ([] @ [2 ^ 0 * 1000]) @ [2 ^ Suc 0 * 1000]\<rparr>"
      using n(3) by (intro fetch_loop_reply) (simp_all add: numeral_2_eq_2)
    finally show ?thesis by (simp add: fetchWithTimeout_def numeral_3_eq_3)
  qed
  from pos le f early w nth scenario show ?thesis unfolding t_def by simp
qed

theorem fetchWithTimeout_backoff_witness:
  "attempts (fetchWithTimeout flaky FETCH_TIMEOUT 2) = 3
   \<and> waits (fetchWithTimeout flaky FETCH_TIMEOUT 2) = [2 ^ 0 * 1000, 2 ^ 1 * 1000]
   \<and> outcome (fetchWithTimeout flaky FETCH_TIMEOUT 2) = Inr \<lparr>status = 200, json = Inr (JObj [])\<rparr>"
proof -
  have h: "isl (flaky 0) \<and> isl (flaky 1) \<and> flaky 2 = Inr \<lparr>status = 200, json = Inr (JObj [])\<rparr>"
    by (simp add: flaky_def)
  from fetchWithTimeout_backoff [of flaky FETCH_TIMEOUT 2 "\<lparr>status = 200, json = Inr (JObj [])\<rparr>"] h
  show ?thesis by simp
qed

text \<open>
  C6 as stated fails: it puts a delay of \<open>2^(k-1)\<close> seconds before attempt \<open>k\<close>, that is
  2 seconds before attempt 2 and 4 seconds before attempt 3. On the network of its own
  scenario the code sleeps 1 second before attempt 2 and 2 seconds before attempt 3.
\<close>

theorem delay_before_attempt_counterexample:
  "waits (fetchWithTimeout flaky FETCH_TIMEOUT 2) = [1000, 2000]
   \<and> [1000, 2000] \<noteq> [2 ^ (2 - 1) * 1000, 2 ^ (3 - 1) * (1000 :: nat)]"
  by (simp add: flaky_transport)

section \<open>Endpoint client: what is raised\<close>

lemma js_get_nullish: "nullish v \<Longrightarrow> js_get v k = JUndefined"
  by (cases v) simp_all

lemma js_or_throws:
  "\<not> toString_throws a \<Longrightarrow> \<not> toString_throws b \<Longrightarrow> \<not> toString_throws (js_or a b)"
  by (simp add: js_or_def)

lemma rethrow_or_offline_ApiError: "is_ApiError (rethrow_or_offline fallback e)"
  by (cases e) simp_all

lemma analyze_catch_ApiError: "is_ApiError (analyze_catch e)"
  by (cases e) simp_all

lemma search_catch_ApiError: "is_ApiError (search_catch e)"
  by (cases e) simp_all

lemma get_json_raises_ApiError:
  "result (get_json address not_ok fallback net) = Inl e \<Longrightarrow> is_ApiError e"
  by (auto simp add: get_json_def Let_def rethrow_or_offline_ApiError
      split: sum.splits if_splits prod.splits)

lemma analyzeDocument_raises_ApiError:
  "result (analyzeDocument base net file) = Inl e \<Longrightarrow> is_ApiError e"
  by (auto simp add: analyzeDocument_def Let_def analyze_catch_ApiError
      split: sum.splits prod.splits)

lemma search_raises_ApiError:
  "result (searchUniversityReviews base now net universityName) = Inl e \<Longrightarrow> is_ApiError e"
  by (auto simp add: searchUniversityReviews_def Let_def search_catch_ApiError
      split: sum.splits if_splits)

lemma search_rejects_name:
  "trim universityName = [] \<or> length universityName < 3 \<Longrightarrow>
   (\<exists>m. result (searchUniversityReviews base now net universityName)
          = Inl (ApiError m 400 JUndefined))
   \<and> requests (searchUniversityReviews base now net universityName) = []"
  by (auto simp add: searchUniversityReviews_def)

lemma get_json_timeout:
  "fails_with net 1 AbortError msg \<Longrightarrow>
   result (get_json address not_ok fallback net)
     = Inl (ApiError (JStr (timeout_message 5000)) 408 JUndefined)"
  by (simp add: get_json_def Let_def transport_fails_with)

lemma get_json_offline:
  "fails_with net 1 cls msg \<Longrightarrow> cls \<noteq> AbortError \<Longrightarrow>
   result (get_json address not_ok fallback net) = Inl (ApiError (JStr fallback) 0 JUndefined)"
  by (simp add: get_json_def Let_def transport_fails_with)

lemma get_json_not_ok:
  "outcome (fetchWithTimeout net 5000 1) = Inr response \<Longrightarrow> \<not> ok response \<Longrightarrow>
   result (get_json address not_ok fallback net)
     = Inl (ApiError (JStr not_ok) (status response) JUndefined)"
  by (simp add: get_json_def Let_def)

lemma get_json_unparsable:
  "outcome (fetchWithTimeout net 5000 1) = Inr response \<Longrightarrow> ok response \<Longrightarrow>
   json response = Inl (cls, msg) \<Longrightarrow>
   result (get_json address not_ok fallback net) = Inl (ApiError (JStr fallback) 0 JUndefined)"
  by (simp add: get_json_def Let_def)

lemma analyze_timeout:
  "encoded file = Inr base64Content \<Longrightarrow> fails_with net MAX_RETRIES AbortError msg \<Longrightarrow>
   result (analyzeDocument base net file)
     = Inl (ApiError (JStr (timeout_message FETCH_TIMEOUT)) 408 JUndefined)"
  by (simp add: analyzeDocument_def Let_def transport_fails_with)

lemma search_timeout:
  "trim universityName \<noteq> [] \<Longrightarrow> 3 \<le> length universityName \<Longrightarrow>
   fails_with net MAX_RETRIES AbortError msg \<Longrightarrow>
   result (searchUniversityReviews base now net universityName) =
     Inl (ApiError (JStr (timeout_message UNIVERSITY_TIMEOUT)) 408 JUndefined)"
  by (simp add: searchUniversityReviews_def Let_def transport_fails_with)

lemma search_offline:
  "trim universityName \<noteq> [] \<Longrightarrow> 3 \<le> length universityName \<Longrightarrow>
   fails_with net MAX_RETRIES TypeError msg \<Longrightarrow> str_includes msg ''fetch'' \<Longrightarrow>
   \<not> str_includes msg ''timeout'' \<Longrightarrow>
   \<exists>m. result (searchUniversityReviews base now net universityName)
         = Inl (ApiError m 0 JUndefined)"
  by (simp add: searchUniversityReviews_def Let_def transport_fails_with)

lemma analyze_not_ok:
  assumes "encoded file = Inr base64Content"
    and "outcome (fetchWithTimeout net FETCH_TIMEOUT MAX_RETRIES) = Inr response"
    and "\<not> ok response" and "json response = Inr errorData" and "\<not> nullish errorData"
    and "\<not> toString_throws (js_get errorData ''detail'')"
    and "\<not> toString_throws (js_get errorData ''error'')"
  shows "\<exists>m. result (analyzeDocument base net file) = Inl (ApiError m (status response) errorData)"
  using assms
  by (simp add: analyzeDocument_def Let_def analyze_response_def new_ApiError_def js_or_throws)

lemma search_not_ok:
  assumes "trim universityName \<noteq> []" and "3 \<le> length universityName"
    and "outcome (fetchWithTimeout net UNIVERSITY_TIMEOUT MAX_RETRIES) = Inr response"
    and "\<not> ok response" and "json response = Inr responseData" and "\<not> nullish responseData"
    and "\<not> truthy (js_get responseData ''search_status'')"
    and "\<not> toString_throws (js_get responseData ''detail'')"
    and "\<not> toString_throws (js_get responseData ''error'')"
  shows "\<exists>m. result (searchUniversityReviews base now net universityName)
           = Inl (ApiError m (status response) responseData)"
  using assms
  by (simp add: searchUniversityReviews_def Let_def search_response_def new_ApiError_def
      js_or_throws)

lemma analyze_malformed:
  assumes "encoded file = Inr base64Content"
    and "outcome (fetchWithTimeout net FETCH_TIMEOUT MAX_RETRIES) = Inr response"
    and "ok response" and "json response = Inr responseData"
    and "\<not> truthy (js_get responseData ''summary'') \<or> \<not> truthy (js_get responseData ''claims'')"
  shows "\<exists>m. result (analyzeDocument base net file) = Inl (ApiError m 500 JUndefined)"
proof (cases "nullish responseData")
  case True
  then have "responseData = JNull \<or> responseData = JUndefined"
    by (cases responseData) simp_all
  with assms show ?thesis
    by (auto simp add: analyzeDocument_def Let_def analyze_response_def)
next
  case False
  with assms show ?thesis
    by (auto simp add: analyzeDocument_def Let_def analyze_response_def)
qed

lemma analyze_accepts:
  assumes "encoded file = Inr base64Content"
    and "outcome (fetchWithTimeout net FETCH_TIMEOUT MAX_RETRIES) = Inr response"
    and "ok response" and "json response = Inr responseData"
    and "truthy (js_get responseData ''summary'')" and "truthy (js_get responseData ''claims'')"
  shows "result (analyzeDocument base net file) = Inr responseData"
proof -
  from assms(5) have "\<not> nullish responseData" by (cases responseData) simp_all
  with assms show ?thesis
    by (simp add: analyzeDocument_def Let_def analyze_response_def)
qed

lemma map_rejects:
  assumes "\<not> truthy apiResponse \<or> \<not> typeof_object apiResponse
       \<or> \<not> truthy (js_get apiResponse ''summary'') \<or> \<not> truthy (js_get apiResponse ''claims'')
       \<or> \<not> isArray (js_get apiResponse ''claims'')"
  shows "\<exists>msg. mapApiResponseToFrontend rnd apiResponse = Inl (JsError PlainError msg)"
  using assms by (auto simp add: mapApiResponseToFrontend_def)

text \<open>Evaluating the scenarios.\<close>

lemma replies_transport:
  "fetchWithTimeout (replies code payload) timeout retries =
     \<lparr>outcome = Inr \<lparr>status = code, json = Inr payload\<rparr>, attempts = 1, waits = []\<rparr>"
  by (simp add: fetchWithTimeout_def fetch_loop.simps replies_def)

lemma offline_fails: "fails_with offline retries TypeError ''Failed to fetch''"
  by (simp add: fails_with_def offline_def list_all_iff)

lemma stalled_fails: "fails_with stalled retries AbortError ''The user aborted a request.''"
  by (simp add: fails_with_def stalled_def list_all_iff)

lemma show_404: "show_nat 404 = ''404''"
  by (simp add: show_nat.simps digit_def)

lemma trim_MIT: "trim ''MIT'' = ''MIT''"
  by (simp add: trim_def is_space_def)

lemma trim_padded: "trim ''  MIT '' = ''MIT''"
  by (simp add: trim_def is_space_def)

lemma encoded_report: "encoded report_txt = Inr ''cmVwb3J0''"
  by (simp add: report_txt_def)

lemma analyze_not_ok_unparsable:
  assumes "encoded file = Inr base64Content"
    and "outcome (fetchWithTimeout net FETCH_TIMEOUT MAX_RETRIES) = Inr response"
    and "\<not> ok response" and "json response = Inl (cls, msg)"
  shows "\<exists>m. result (analyzeDocument base net file) = Inl (ApiError m (status response) (JObj []))"
  using assms
  by (simp add: analyzeDocument_def Let_def analyze_response_def new_ApiError_def js_or_def)

lemma analyze_unparsable:
  assumes "encoded file = Inr base64Content"
    and "outcome (fetchWithTimeout net FETCH_TIMEOUT MAX_RETRIES) = Inr response"
    and "ok response" and "json response = Inl (cls, msg)" and "\<not> str_includes msg ''timeout''"
  shows "\<exists>m. result (analyzeDocument base net file) = Inl (ApiError m 500 JUndefined)"
  using assms by (simp add: analyzeDocument_def Let_def analyze_response_def)

lemma search_unparsable:
  assumes "trim universityName \<noteq> []" and "3 \<le> length universityName"
    and "outcome (fetchWithTimeout net UNIVERSITY_TIMEOUT MAX_RETRIES) = Inr response"
    and "json response = Inl (SyntaxError, msg)" and "\<not> str_includes msg ''timeout''"
  shows "\<exists>m. result (searchUniversityReviews base now net universityName)
           = Inl (ApiError m 500 JUndefined)"
  using assms by (simp add: searchUniversityReviews_def Let_def search_response_def)

lemma analyze_timeout_message:
  "encoded file = Inr base64Content \<Longrightarrow> fails_with net MAX_RETRIES cls msg \<Longrightarrow>
   str_includes msg ''timeout'' \<Longrightarrow>
   \<exists>m. result (analyzeDocument base net file) = Inl (ApiError m 408 JUndefined)"
  by (simp add: analyzeDocument_def Let_def transport_fails_with)

lemma search_timeout_message:
  "trim universityName \<noteq> [] \<Longrightarrow> 3 \<le> length universityName \<Longrightarrow>
   fails_with net MAX_RETRIES cls msg \<Longrightarrow> str_includes msg ''timeout'' \<Longrightarrow>
   \<exists>m. result (searchUniversityReviews base now net universityName)
         = Inl (ApiError m 408 JUndefined)"
  by (simp add: searchUniversityReviews_def Let_def transport_fails_with)

lemma garbled_transport:
  "fetchWithTimeout (garbled code) timeout retries =
     \<lparr>outcome = Inr \<lparr>status = code,
                         json = Inl (SyntaxError, ''Unexpected token < in JSON at position 0'')\<rparr>,
      attempts = 1, waits = []\<rparr>"
  by (simp add: fetchWithTimeout_def fetch_loop.simps garbled_def)

lemma unreachable_fails: "fails_with unreachable retries TypeError ''Load failed''"
  by (simp add: fails_with_def unreachable_def list_all_iff)

text \<open>
  C7, as the code has it. Every failure the four endpoint operations raise is an
  ApiError, never a generic failure. For a search whose name passes the pre-check and an
  analysis whose file was read and encoded, its status is
  \<^item> 408 when the last attempt of the transport timed out, and in document analysis and
    university search also when the transport's failure mentions \<^verbatim>\<open>timeout\<close> in its
    message;
  \<^item> the status of the backend when it answers outside 2xx: always in the health and
    status checks; in document analysis when the body is not JSON, or is a JSON value
    other than \<^verbatim>\<open>null\<close> whose message converts to a string; in university search when
    the body is a JSON value other than \<^verbatim>\<open>null\<close> without a truthy \<^verbatim>\<open>search_status\<close>
    whose message converts to a string;
  \<^item> 500 when a 2xx analysis reply lacks \<^verbatim>\<open>summary\<close> or \<^verbatim>\<open>claims\<close>; when reading a 2xx
    analysis reply fails with a message that does not mention \<^verbatim>\<open>timeout\<close>; and when
    parsing the reply to a search fails with a SyntaxError whose message does not
    mention \<^verbatim>\<open>timeout\<close>;
  \<^item> 0 in the health and status checks for every other failure, a lost connection and
    an unreadable body alike; 0 in university search for a TypeError of the transport
    whose message mentions \<^verbatim>\<open>fetch\<close> and not \<^verbatim>\<open>timeout\<close>.

  The status is 400, with no request issued, when \<^verbatim>\<open>searchUniversityReviews\<close> refuses
  the name. Nothing is said here about the status document analysis gives a lost
  connection.
\<close>

theorem endpoint_failures_are_classified:
  "(\<forall>e. result (getHealth base net) = Inl e \<longrightarrow> is_ApiError e)
 \<and> (\<forall>e. result (getStatus base net) = Inl e \<longrightarrow> is_ApiError e)
 \<and> (\<forall>e. result (analyzeDocument base net document) = Inl e \<longrightarrow> is_ApiError e)
 \<and> (\<forall>e. result (searchUniversityReviews base now net universityName) = Inl e \<longrightarrow> is_ApiError e)
 \<and> (trim universityName = [] \<or> length universityName < 3 \<longrightarrow>
      (\<exists>m. result (searchUniversityReviews base now net universityName) = Inl (ApiError m 400 JUndefined))
      \<and> requests (searchUniversityReviews base now net universityName) = [])
 \<and> (fails_with net 1 AbortError msg \<longrightarrow>
      (\<exists>m. result (getHealth base net) = Inl (ApiError m 408 JUndefined))
      \<and> (\<exists>m. result (getStatus base net) = Inl (ApiError m 408 JUndefined)))
 \<and> (fails_with net MAX_RETRIES AbortError msg \<longrightarrow>
      (encoded document = Inr base64Content \<longrightarrow> (\<exists>m. result (analyzeDocument base net document) = Inl (ApiError m 408 JUndefined)))
      \<and> (trim universityName \<noteq> [] \<and> 3 \<le> length universityName \<longrightarrow> (\<exists>m. result (searchUniversityReviews base now net universityName) = Inl (ApiError m 408 JUndefined))))
 \<and> (fails_with net MAX_RETRIES cls msg \<and> str_includes msg ''timeout'' \<longrightarrow>
      (encoded document = Inr base64Content \<longrightarrow> (\<exists>m. result (analyzeDocument base net document) = Inl (ApiError m 408 JUndefined)))
      \<and> (trim universityName \<noteq> [] \<and> 3 \<le> length universityName \<longrightarrow> (\<exists>m. result (searchUniversityReviews base now net universityName) = Inl (ApiError m 408 JUndefined))))
 \<and> (outcome (fetchWithTimeout net 5000 1) = Inr response \<and> \<not> ok response \<longrightarrow>
      (\<exists>m. result (getHealth base net) = Inl (ApiError m (status response) JUndefined))
      \<and> (\<exists>m. result (getStatus base net) = Inl (ApiError m (status response) JUndefined)))
 \<and> (encoded document = Inr base64Content
      \<and> outcome (fetchWithTimeout net FETCH_TIMEOUT MAX_RETRIES) = Inr response
      \<and> \<not> ok response \<and> json response = Inl (cls, msg) \<longrightarrow>
      (\<exists>m. result (analyzeDocument base net document) = Inl (ApiError m (status response) (JObj []))))
 \<and> (encoded document = Inr base64Content
      \<and> outcome (fetchWithTimeout net FETCH_TIMEOUT MAX_RETRIES) = Inr response
      \<and> \<not> ok response \<and> json response = Inr payload \<and> \<not> nullish payload
      \<and> \<not> toString_throws (js_get payload ''detail'')
      \<and> \<not> toString_throws (js_get payload ''error'') \<longrightarrow>
      (\<exists>m. result (analyzeDocument base net document) = Inl (ApiError m (status response) payload)))
 \<and> (trim universityName \<noteq> [] \<and> 3 \<le> length universityName
      \<and> outcome (fetchWithTimeout net UNIVERSITY_TIMEOUT MAX_RETRIES) = Inr response
      \<and> \<not> ok response \<and> json response = Inr payload \<and> \<not> nullish payload
      \<and> \<not> truthy (js_get payload ''search_status'')
      \<and> \<not> toString_throws (js_get payload ''detail'')
      \<and> \<not> toString_throws (js_get payload ''error'') \<longrightarrow>
      (\<exists>m. result (searchUniversityReviews base now net universityName) = Inl (ApiError m (status response) payload)))
 \<and> (encoded document = Inr base64Content
      \<and> outcome (fetchWithTimeout net FETCH_TIMEOUT MAX_RETRIES) = Inr response
      \<and> ok response \<and> json response = Inr payload
      \<and> (\<not> truthy (js_get payload ''summary'') \<or> \<not> truthy (js_get payload ''claims'')) \<longrightarrow>
      (\<exists>m. result (analyzeDocument base net document) = Inl (ApiError m 500 JUndefined)))
 \<and> (encoded document = Inr base64Content
      \<and> outcome (fetchWithTimeout net FETCH_TIMEOUT MAX_RETRIES) = Inr response
      \<and> ok response \<and> json response = Inl (cls, msg)
      \<and> \<not> str_includes msg ''timeout'' \<longrightarrow>
      (\<exists>m. result (analyzeDocument base net document) = Inl (ApiError m 500 JUndefined)))
 \<and> (trim universityName \<noteq> [] \<and> 3 \<le> length universityName
      \<and> outcome (fetchWithTimeout net UNIVERSITY_TIMEOUT MAX_RETRIES) = Inr response
      \<and> json response = Inl (SyntaxError, msg)
      \<and> \<not> str_includes msg ''timeout'' \<longrightarrow>
      (\<exists>m. result (searchUniversityReviews base now net universityName) = Inl (ApiError m 500 JUndefined)))
 \<and> (fails_with net 1 cls msg \<and> cls \<noteq> AbortError \<longrightarrow>
      (\<exists>m. result (getHealth base net) = Inl (ApiError m 0 JUndefined))
      \<and> (\<exists>m. result (getStatus base net) = Inl (ApiError m 0 JUndefined)))
 \<and> (outcome (fetchWithTimeout net 5000 1) = Inr response \<and> ok response
      \<and> json response = Inl (cls, msg) \<longrightarrow>
      (\<exists>m. result (getHealth base net) = Inl (ApiError m 0 JUndefined))
      \<and> (\<exists>m. result (getStatus base net) = Inl (ApiError m 0 JUndefined)))
 \<and> (trim universityName \<noteq> [] \<and> 3 \<le> length universityName
      \<and> fails_with net MAX_RETRIES TypeError msg \<and> str_includes msg ''fetch''
      \<and> \<not> str_includes msg ''timeout'' \<longrightarrow>
      (\<exists>m. result (searchUniversityReviews base now net universityName) = Inl (ApiError m 0 JUndefined)))"
proof -
  have raised: "(\<forall>e. result (getHealth base net) = Inl e \<longrightarrow> is_ApiError e)
   \<and> (\<forall>e. result (getStatus base net) = Inl e \<longrightarrow> is_ApiError e)
   \<and> (\<forall>e. result (analyzeDocument base net document) = Inl e \<longrightarrow> is_ApiError e)
   \<and> (\<forall>e. result (searchUniversityReviews base now net universityName) = Inl e \<longrightarrow> is_ApiError e)"
    using get_json_raises_ApiError analyzeDocument_raises_ApiError search_raises_ApiError
    unfolding getHealth_def getStatus_def by blast
  have name: "(trim universityName = [] \<or> length universityName < 3 \<longrightarrow>
        (\<exists>m. result (searchUniversityReviews base now net universityName) = Inl (ApiError m 400 JUndefined))
        \<and> requests (searchUniversityReviews base now net universityName) = [])"
    using search_rejects_name by blast
  have timeout1: "(fails_with net 1 AbortError msg \<longrightarrow>
        (\<exists>m. result (getHealth base net) = Inl (ApiError m 408 JUndefined))
        \<and> (\<exists>m. result (getStatus base net) = Inl (ApiError m 408 JUndefined)))"
    unfolding getHealth_def getStatus_def using get_json_timeout by blast
  have timeout2: "(fails_with net MAX_RETRIES AbortError msg \<longrightarrow>
        (encoded document = Inr base64Content \<longrightarrow> (\<exists>m. result (analyzeDocument base net document) = Inl (ApiError m 408 JUndefined)))
        \<and> (trim universityName \<noteq> [] \<and> 3 \<le> length universityName \<longrightarrow> (\<exists>m. result (searchUniversityReviews base now net universityName) = Inl (ApiError m 408 JUndefined))))"
    using analyze_timeout search_timeout by blast
  have timeout3: "(fails_with net MAX_RETRIES cls msg \<and> str_includes msg ''timeout'' \<longrightarrow>
        (encoded document = Inr base64Content \<longrightarrow> (\<exists>m. result (analyzeDocument base net document) = Inl (ApiError m 408 JUndefined)))
        \<and> (trim universityName \<noteq> [] \<and> 3 \<le> length universityName \<longrightarrow> (\<exists>m. result (searchUniversityReviews base now net universityName) = Inl (ApiError m 408 JUndefined))))"
    using analyze_timeout_message search_timeout_message by blast
  have backend1: "(outcome (fetchWithTimeout net 5000 1) = Inr response \<and> \<not> ok response \<longrightarrow>
        (\<exists>m. result (getHealth base net) = Inl (ApiError m (status response) JUndefined))
        \<and> (\<exists>m. result (getStatus base net) = Inl (ApiError m (status response) JUndefined)))"
    unfolding getHealth_def getStatus_def using get_json_not_ok by blast
  have backend2: "(encoded document = Inr base64Content
        \<and> outcome (fetchWithTimeout net FETCH_TIMEOUT MAX_RETRIES) = Inr response
        \<and> \<not> ok response \<and> json response = Inl (cls, msg) \<longrightarrow>
        (\<exists>m. result (analyzeDocument base net document) = Inl (ApiError m (status response) (JObj []))))"
    using analyze_not_ok_unparsable by blast
  have backend3: "(encoded document = Inr base64Content
        \<and> outcome (fetchWithTimeout net FETCH_TIMEOUT MAX_RETRIES) = Inr response
        \<and> \<not> ok response \<and> json response = Inr payload \<and> \<not> nullish payload
        \<and> \<not> toString_throws (js_get payload ''detail'')
        \<and> \<not> toString_throws (js_get payload ''error'') \<longrightarrow>
        (\<exists>m. result (analyzeDocument base net document) = Inl (ApiError m (status response) payload)))"
    using analyze_not_ok by blast
  have backend4: "(trim universityName \<noteq> [] \<and> 3 \<le> length universityName
        \<and> outcome (fetchWithTimeout net UNIVERSITY_TIMEOUT MAX_RETRIES) = Inr response
        \<and> \<not> ok response \<and> json response = Inr payload \<and> \<not> nullish payload
        \<and> \<not> truthy (js_get payload ''search_status'')
        \<and> \<not> toString_throws (js_get payload ''detail'')
        \<and> \<not> toString_throws (js_get payload ''error'') \<longrightarrow>
        (\<exists>m. result (searchUniversityReviews base now net universityName) = Inl (ApiError m (status response) payload)))"
    using search_not_ok by blast
  have malformed1: "(encoded document = Inr base64Content
        \<and> outcome (fetchWithTimeout net FETCH_TIMEOUT MAX_RETRIES) = Inr response
        \<and> ok response \<and> json response = Inr payload
        \<and> (\<not> truthy (js_get payload ''summary'') \<or> \<not> truthy (js_get payload ''claims'')) \<longrightarrow>
        (\<exists>m. result (analyzeDocument base net document) = Inl (ApiError m 500 JUndefined)))"
    using analyze_malformed by blast
  have malformed2: "(encoded document = Inr base64Content
        \<and> outcome (fetchWithTimeout net FETCH_TIMEOUT MAX_RETRIES) = Inr response
        \<and> ok response \<and> json response = Inl (cls, msg)
        \<and> \<not> str_includes msg ''timeout'' \<longrightarrow>
        (\<exists>m. result (analyzeDocument base net document) = Inl (ApiError m 500 JUndefined)))"
    using analyze_unparsable by blast
  have malformed3: "(trim universityName \<noteq> [] \<and> 3 \<le> length universityName
        \<and> outcome (fetchWithTimeout net UNIVERSITY_TIMEOUT MAX_RETRIES) = Inr response
        \<and> json response = Inl (SyntaxError, msg)
        \<and> \<not> str_includes msg ''timeout'' \<longrightarrow>
        (\<exists>m. result (searchUniversityReviews base now net universityName) = Inl (ApiError m 500 JUndefined)))"
    using search_unparsable by blast
  have offline1: "(fails_with net 1 cls msg \<and> cls \<noteq> AbortError \<longrightarrow>
        (\<exists>m. result (getHealth base net) = Inl (ApiError m 0 JUndefined))
        \<and> (\<exists>m. result (getStatus base net) = Inl (ApiError m 0 JUndefined)))"
    unfolding getHealth_def getStatus_def using get_json_offline by blast
  have unreadable: "(outcome (fetchWithTimeout net 5000 1) = Inr response \<and> ok response
        \<and> json response = Inl (cls, msg) \<longrightarrow>
        (\<exists>m. result (getHealth base net) = Inl (ApiError m 0 JUndefined))
        \<and> (\<exists>m. result (getStatus base net) = Inl (ApiError m 0 JUndefined)))"
    unfolding getHealth_def getStatus_def using get_json_unparsable by blast
  have offline2: "(trim universityName \<noteq> [] \<and> 3 \<le> length universityName
        \<and> fails_with net MAX_RETRIES TypeError msg \<and> str_includes msg ''fetch''
        \<and> \<not> str_includes msg ''timeout'' \<longrightarrow>
        (\<exists>m. result (searchUniversityReviews base now net universityName) = Inl (ApiError m 0 JUndefined)))"
    using search_offline by blast
  from raised name timeout1 timeout2 timeout3 backend1 backend2 backend3 backend4 malformed1 malformed2 malformed3 offline1 unreadable offline2
  show ?thesis by (intro conjI) (elim conjE; assumption)+
qed

theorem endpoint_failures_are_classified_witness:
  "result (getHealth localhost offline) =
     Inl (ApiError (JStr ''Cannot connect to backend server'') 0 JUndefined)
   \<and> result (getStatus localhost stalled) =
     Inl (ApiError (JStr ''Request timeout after 5 seconds'') 408 JUndefined)
   \<and> result (searchUniversityReviews localhost noon offline ''IT'') =
     Inl (ApiError (JStr ''University name must be at least 3 characters long'') 400 JUndefined)
   \<and> result (analyzeDocument localhost (replies 503 (JObj [(''detail'', JStr ''busy'')])) report_txt) =
     Inl (ApiError (JStr ''busy'') 503 (JObj [(''detail'', JStr ''busy'')]))
   \<and> result (analyzeDocument localhost (replies 200 (JObj [(''claims'', JArr [])])) report_txt) =
     Inl (ApiError (JStr ''Invalid response structure from backend'') 500 JUndefined)
   \<and> result (analyzeDocument localhost (garbled 502) report_txt) =
     Inl (ApiError (JStr ''Analysis failed with status 502'') 502 (JObj []))
   \<and> result (searchUniversityReviews localhost noon offline ''MIT'') =
     Inl (ApiError
            (JStr ''Unable to connect to the server. Please check your internet connection.'')
            0 JUndefined)"
proof -
  have a: "fails_with offline 1 TypeError ''Failed to fetch'' \<and> TypeError \<noteq> AbortError"
    using offline_fails by simp
  have b: "fails_with stalled 1 AbortError ''The user aborted a request.''"
    by (rule stalled_fails)
  have c: "trim ''IT'' = [] \<or> length ''IT'' < 3" by simp
  have d: "encoded report_txt = Inr ''cmVwb3J0''
      \<and> outcome (fetchWithTimeout (replies 503 (JObj [(''detail'', JStr ''busy'')]))
            FETCH_TIMEOUT MAX_RETRIES)
          = Inr \<lparr>status = 503, json = Inr (JObj [(''detail'', JStr ''busy'')])\<rparr>
      \<and> \<not> ok \<lparr>status = 503, json = Inr (JObj [(''detail'', JStr ''busy'')])\<rparr>
      \<and> json \<lparr>status = 503, json = Inr (JObj [(''detail'', JStr ''busy'')])\<rparr>
          = Inr (JObj [(''detail'', JStr ''busy'')])
      \<and> \<not> nullish (JObj [(''detail'', JStr ''busy'')])
      \<and> \<not> toString_throws (js_get (JObj [(''detail'', JStr ''busy'')]) ''detail'')
      \<and> \<not> toString_throws (js_get (JObj [(''detail'', JStr ''busy'')]) ''error'')"
    by (simp add: encoded_report replies_transport ok_def)
  have e: "encoded report_txt = Inr ''cmVwb3J0''
      \<and> outcome (fetchWithTimeout (replies 200 (JObj [(''claims'', JArr [])]))
            FETCH_TIMEOUT MAX_RETRIES)
          = Inr \<lparr>status = 200, json = Inr (JObj [(''claims'', JArr [])])\<rparr>
      \<and> ok \<lparr>status = 200, json = Inr (JObj [(''claims'', JArr [])])\<rparr>
      \<and> json \<lparr>status = 200, json = Inr (JObj [(''claims'', JArr [])])\<rparr>
          = Inr (JObj [(''claims'', JArr [])])
      \<and> (\<not> truthy (js_get (JObj [(''claims'', JArr [])]) ''summary'')
           \<or> \<not> truthy (js_get (JObj [(''claims'', JArr [])]) ''claims''))"
    by (simp add: encoded_report replies_transport ok_def)
  have f: "encoded report_txt = Inr ''cmVwb3J0''
      \<and> outcome (fetchWithTimeout (garbled 502) FETCH_TIMEOUT MAX_RETRIES)
          = Inr \<lparr>status = 502,
                  json = Inl (SyntaxError, ''Unexpected token < in JSON at position 0'')\<rparr>
      \<and> \<not> ok \<lparr>status = 502,
                  json = Inl (SyntaxError, ''Unexpected token < in JSON at position 0'')\<rparr>
      \<and> json \<lparr>status = 502,
                  json = Inl (SyntaxError, ''Unexpected token < in JSON at position 0'')\<rparr>
          = Inl (SyntaxError, ''Unexpected token < in JSON at position 0'')"
    by (simp add: encoded_report garbled_transport ok_def)
  have g: "trim ''MIT'' \<noteq> [] \<and> 3 \<le> length ''MIT''
      \<and> fails_with offline MAX_RETRIES TypeError ''Failed to fetch''
      \<and> str_includes ''Failed to fetch'' ''fetch''
      \<and> \<not> str_includes ''Failed to fetch'' ''timeout''"
    using offline_fails by (simp add: trim_MIT)
  have "\<exists>m. result (getHealth localhost offline) = Inl (ApiError m 0 JUndefined)"
    using a endpoint_failures_are_classified
         [where base = localhost and net = offline and cls = TypeError
            and msg = "''Failed to fetch''", THEN conjunct2, THEN conjunct2, THEN conjunct2, THEN conjunct2, THEN conjunct2, THEN conjunct2, THEN conjunct2, THEN conjunct2, THEN conjunct2, THEN conjunct2, THEN conjunct2, THEN conjunct2, THEN conjunct2, THEN conjunct2, THEN conjunct2, THEN conjunct1]
    by simp
  then have 1: "result (getHealth localhost offline) =
     Inl (ApiError (JStr ''Cannot connect to backend server'') 0 JUndefined)"
    by (simp add: getHealth_def get_json_def Let_def transport_fails_with [OF offline_fails])
  have "\<exists>m. result (getStatus localhost stalled) = Inl (ApiError m 408 JUndefined)"
    using b endpoint_failures_are_classified
         [where base = localhost and net = stalled and msg = "''The user aborted a request.''",
          THEN conjunct2, THEN conjunct2, THEN conjunct2, THEN conjunct2, THEN conjunct2, THEN conjunct1]
    by simp
  then have 2: "result (getStatus localhost stalled) =
     Inl (ApiError (JStr ''Request timeout after 5 seconds'') 408 JUndefined)"
    by (simp add: getStatus_def get_json_def Let_def transport_fails_with [OF stalled_fails]
        timeout_message_def show_nat.simps digit_def)
  have "\<exists>m. result (searchUniversityReviews localhost noon offline ''IT'')
            = Inl (ApiError m 400 JUndefined)"
    using c endpoint_failures_are_classified
         [where base = localhost and now = noon and net = offline
            and universityName = "''IT''", THEN conjunct2, THEN conjunct2, THEN conjunct2, THEN conjunct2, THEN conjunct1]
    by simp
  then have 3: "result (searchUniversityReviews localhost noon offline ''IT'') =
     Inl (ApiError (JStr ''University name must be at least 3 characters long'') 400 JUndefined)"
    by (simp add: searchUniversityReviews_def trim_def is_space_def)
  have "\<exists>m. result (analyzeDocument localhost (replies 503 (JObj [(''detail'', JStr ''busy'')]))
               report_txt)
          = Inl (ApiError m (status \<lparr>status = 503, json = Inr (JObj [(''detail'', JStr ''busy'')])\<rparr>)
                   (JObj [(''detail'', JStr ''busy'')]))"
    using d endpoint_failures_are_classified
         [where base = localhost and net = "replies 503 (JObj [(''detail'', JStr ''busy'')])"
            and document = report_txt and base64Content = "''cmVwb3J0''"
            and response = "\<lparr>status = 503, json = Inr (JObj [(''detail'', JStr ''busy'')])\<rparr>"
            and payload = "JObj [(''detail'', JStr ''busy'')]", THEN conjunct2, THEN conjunct2, THEN conjunct2, THEN conjunct2, THEN conjunct2, THEN conjunct2, THEN conjunct2, THEN conjunct2, THEN conjunct2, THEN conjunct2, THEN conjunct1]
    by (rule rev_mp)
  then have 4: "result (analyzeDocument localhost (replies 503 (JObj [(''detail'', JStr ''busy'')]))
               report_txt)
          = Inl (ApiError (JStr ''busy'') 503 (JObj [(''detail'', JStr ''busy'')]))"
    by (simp add: analyzeDocument_def encoded_report replies_transport analyze_response_def
        ok_def new_ApiError_def js_or_def Let_def)
  have "\<exists>m. result (analyzeDocument localhost (replies 200 (JObj [(''claims'', JArr [])]))
               report_txt) = Inl (ApiError m 500 JUndefined)"
    using e endpoint_failures_are_classified
         [where base = localhost and net = "replies 200 (JObj [(''claims'', JArr [])])"
            and document = report_txt and base64Content = "''cmVwb3J0''"
            and response = "\<lparr>status = 200, json = Inr (JObj [(''claims'', JArr [])])\<rparr>"
            and payload = "JObj [(''claims'', JArr [])]", THEN conjunct2, THEN conjunct2, THEN conjunct2, THEN conjunct2, THEN conjunct2, THEN conjunct2, THEN conjunct2, THEN conjunct2, THEN conjunct2, THEN conjunct2, THEN conjunct2, THEN conjunct2, THEN conjunct1]
    by (rule rev_mp)
  then have 5: "result (analyzeDocument localhost (replies 200 (JObj [(''claims'', JArr [])]))
               report_txt)
     = Inl (ApiError (JStr ''Invalid response structure from backend'') 500 JUndefined)"
    by (simp add: analyzeDocument_def encoded_report replies_transport analyze_response_def
        ok_def Let_def)
  have "\<exists>m. result (analyzeDocument localhost (garbled 502) report_txt)
          = Inl (ApiError m
                   (status \<lparr>status = 502,
                      json = Inl (SyntaxError, ''Unexpected token < in JSON at position 0'')\<rparr>)
                   (JObj []))"
    using f endpoint_failures_are_classified
         [where base = localhost and net = "garbled 502"
            and document = report_txt and base64Content = "''cmVwb3J0''"
            and response = "\<lparr>status = 502,
                  json = Inl (SyntaxError, ''Unexpected token < in JSON at position 0'')\<rparr>"
            and cls = SyntaxError and msg = "''Unexpected token < in JSON at position 0''",
          THEN conjunct2, THEN conjunct2, THEN conjunct2, THEN conjunct2, THEN conjunct2, THEN conjunct2, THEN conjunct2, THEN conjunct2, THEN conjunct2, THEN conjunct1]
    by (rule rev_mp)
  then have 6: "result (analyzeDocument localhost (garbled 502) report_txt) =
     Inl (ApiError (JStr ''Analysis failed with status 502'') 502 (JObj []))"
    by (simp add: analyzeDocument_def encoded_report garbled_transport analyze_response_def
        ok_def new_ApiError_def js_or_def Let_def show_nat.simps digit_def)
  have "\<exists>m. result (searchUniversityReviews localhost noon offline ''MIT'')
          = Inl (ApiError m 0 JUndefined)"
    using g endpoint_failures_are_classified
         [where base = localhost and now = noon and net = offline
            and universityName = "''MIT''" and msg = "''Failed to fetch''", THEN conjunct2, THEN conjunct2, THEN conjunct2, THEN conjunct2, THEN conjunct2, THEN conjunct2, THEN conjunct2, THEN conjunct2, THEN conjunct2, THEN conjunct2, THEN conjunct2, THEN conjunct2, THEN conjunct2, THEN conjunct2, THEN conjunct2, THEN conjunct2, THEN conjunct2]
    by (rule rev_mp)
  then have 7: "result (searchUniversityReviews localhost noon offline ''MIT'') =
     Inl (ApiError
            (JStr ''Unable to connect to the server. Please check your internet connection.'')
            0 JUndefined)"
    by (simp add: searchUniversityReviews_def trim_MIT Let_def
        transport_fails_with [OF offline_fails])
  from 1 2 3 4 5 6 7 show ?thesis by simp
qed

text \<open>
  C7 as stated fails, by the way the handlers are written. The health check gives a 2xx
  reply that is not JSON the status 0, not the 500 of a malformed response. University
  search gives a lost connection the status 500 when the TypeError of the transport does
  not mention \<^verbatim>\<open>fetch\<close>. Document analysis gives a reply of status 503 the status 500
  when its body is \<^verbatim>\<open>null\<close>, or when its \<^verbatim>\<open>detail\<close> does not convert to a string.
\<close>

theorem status_taxonomy_counterexample:
  "result (getHealth localhost (garbled 200)) =
     Inl (ApiError (JStr ''Cannot connect to backend server'') 0 JUndefined)
   \<and> result (searchUniversityReviews localhost noon unreachable ''MIT'') =
     Inl (ApiError (JStr ''Unexpected error: Load failed'') 500 JUndefined)
   \<and> map_sum status_of id (result (analyzeDocument localhost (replies 503 JNull) report_txt))
     = Inl (Some 500)
   \<and> map_sum status_of id
       (result (analyzeDocument localhost
          (replies 503 (JObj [(''detail'', JObj [(''toString'', JNum 1)])])) report_txt))
     = Inl (Some 500)"
  by (simp add: getHealth_def get_json_def garbled_transport ok_def Let_def
      searchUniversityReviews_def trim_MIT transport_fails_with [OF unreachable_fails]
      analyzeDocument_def encoded_report replies_transport analyze_response_def
      new_ApiError_def js_or_def)

text \<open>
  When no attempt of \<^verbatim>\<open>analyzeDocument\<close> reaches the backend, the failure it raises has
  status 500: its handler has no branch for a lost connection, which the handlers of the
  other three operations have.
\<close>

lemma analyzeDocument_offline:
  "result (analyzeDocument localhost offline report_txt) =
     Inl (ApiError (JStr ''Analysis failed: Failed to fetch'') 500 JUndefined)"
  by (simp add: analyzeDocument_def encoded_report Let_def
      transport_fails_with [OF offline_fails])

section \<open>University search\<close>

text \<open>
  C8. \<^verbatim>\<open>searchUniversityReviews\<close> fails with an ApiError of status 400 and issues no
  request whenever the name is empty after trimming or shorter than 3 characters; for
  every other name it issues at least one request, and each request it issues is a POST
  to the review endpoint whose body carries the trimmed name and
  \<^verbatim>\<open>include_debug = false\<close>.
\<close>

theorem search_prevalidation:
  "((trim universityName = [] \<or> length universityName < 3) \<longrightarrow>
      (\<exists>m. result (searchUniversityReviews base now net universityName)
             = Inl (ApiError m 400 JUndefined))
      \<and> requests (searchUniversityReviews base now net universityName) = [])
   \<and> ((trim universityName \<noteq> [] \<and> 3 \<le> length universityName) \<longrightarrow>
      requests (searchUniversityReviews base now net universityName) \<noteq> []
      \<and> list_all (\<lambda>r. url r = base @ ''/api/university-reviews'' \<and> http_method r = ''POST''
                     \<and> body r = JObj [(''university_name'', JStr (trim universityName)),
                                       (''include_debug'', JBool False)])
           (requests (searchUniversityReviews base now net universityName)))"
  using attempts_pos [of net UNIVERSITY_TIMEOUT MAX_RETRIES]
  by (auto simp add: searchUniversityReviews_def Let_def search_request_def list_all_iff)

theorem search_prevalidation_witness:
  "result (searchUniversityReviews localhost noon offline ''IT'')
     = Inl (ApiError (JStr ''University name must be at least 3 characters long'') 400 JUndefined)
   \<and> requests (searchUniversityReviews localhost noon offline ''IT'') = []
   \<and> length (requests (searchUniversityReviews localhost noon offline ''  MIT '')) = 3
   \<and> list_all (\<lambda>r. body r = JObj [(''university_name'', JStr ''MIT''),
                                   (''include_debug'', JBool False)])
       (requests (searchUniversityReviews localhost noon offline ''  MIT ''))"
  using search_prevalidation [of "''IT''" localhost noon offline]
    search_prevalidation [of "''  MIT ''" localhost noon offline]
  by (simp add: trim_padded searchUniversityReviews_def trim_def is_space_def list_all_iff
      fetchWithTimeout_def fetch_loop.simps offline_def MAX_RETRIES_def Let_def)

text \<open>
  C1, as the code has it. When the backend answers a search outside 2xx with a JSON body,
  the client returns a normal result carrying the body's \<^verbatim>\<open>search_status\<close> if that
  field is truthy (every status of the data model is a non-empty string, hence truthy),
  and raises an ApiError if it is absent or falsy.
\<close>

theorem search_soft_failure:
  assumes "trim universityName \<noteq> []" and "3 \<le> length universityName"
    and "outcome (fetchWithTimeout net UNIVERSITY_TIMEOUT MAX_RETRIES) = Inr response"
    and "\<not> ok response" and "json response = Inr responseData"
  shows "(truthy (js_get responseData ''search_status'') \<longrightarrow>
           (\<exists>normalized. result (searchUniversityReviews base now net universityName) = Inr normalized
              \<and> search_status normalized = js_get responseData ''search_status''))
       \<and> (\<not> truthy (js_get responseData ''search_status'') \<longrightarrow>
           (\<exists>e. result (searchUniversityReviews base now net universityName) = Inl e
              \<and> is_ApiError e))"
  using assms
  by (simp add: searchUniversityReviews_def search_response_def Let_def normalizedResponse_def
      js_or_def search_catch_ApiError js_get_nullish new_ApiError_def)

theorem search_soft_failure_witness:
  "\<exists>normalized.
     result (searchUniversityReviews localhost noon
        (replies 404 (JObj [(''search_status'', JStr ''no_data_found''),
                            (''university_name'', JStr ''X'')])) ''Xavier'') = Inr normalized
     \<and> search_status normalized = JStr ''no_data_found''"
proof -
  have t: "trim ''Xavier'' \<noteq> []" by (simp add: trim_def is_space_def)
  have o: "outcome (fetchWithTimeout
              (replies 404 (JObj [(''search_status'', JStr ''no_data_found''),
                                  (''university_name'', JStr ''X'')]))
              UNIVERSITY_TIMEOUT MAX_RETRIES)
           = Inr \<lparr>status = 404, json = Inr (JObj [(''search_status'', JStr ''no_data_found''),
                                                    (''university_name'', JStr ''X'')])\<rparr>"
    by (simp add: replies_transport)
  from search_soft_failure [OF t _ o, of "JObj [(''search_status'', JStr ''no_data_found''),
                                                 (''university_name'', JStr ''X'')]" localhost noon]
  show ?thesis by (simp add: ok_def)
qed

text \<open>
  C1 as stated fails: a body that contains a \<^verbatim>\<open>search_status\<close> field holding the empty
  string, answered with HTTP 404, makes the client raise an ApiError of status 404.
\<close>

theorem empty_search_status_counterexample:
  "result (searchUniversityReviews localhost noon
             (replies 404 (JObj [(''search_status'', JStr [])])) ''MIT'')
   = Inl (ApiError (JStr ''Request failed with status 404'') 404
            (JObj [(''search_status'', JStr [])]))"
  by (simp add: searchUniversityReviews_def trim_MIT replies_transport search_response_def
      ok_def new_ApiError_def js_or_def show_404 Let_def)

lemma js_or_defined: "b \<noteq> JUndefined \<Longrightarrow> js_or a b \<noteq> JUndefined"
  by (cases a) (simp_all add: js_or_def)

lemma js_or_absent: "js_or JUndefined b = b"
  by (simp add: js_or_def)

lemma array_or_empty_not_array: "\<not> isArray v \<Longrightarrow> array_or_empty v = []"
  by (cases v) simp_all

lemma search_accepts:
  assumes "result (searchUniversityReviews base now net universityName) = Inr normalized"
  shows "\<exists>response responseData.
     outcome (fetchWithTimeout net UNIVERSITY_TIMEOUT MAX_RETRIES) = Inr response \<and>
     json response = Inr responseData \<and>
     normalized = normalizedResponse now universityName responseData"
  using assms
  by (auto simp add: searchUniversityReviews_def Let_def search_response_def
      split: if_splits sum.splits prod.splits)

text \<open>
  C9, as the code has it. For every payload the search accepts, \<^verbatim>\<open>negative_reviews\<close>,
  \<^verbatim>\<open>positive_reviews\<close> and \<^verbatim>\<open>sources\<close> are the empty sequence whenever the raw field
  is not a sequence; the counts and the rating of the review summary are 0 and its
  complaint and praise lists are empty when absent; \<^verbatim>\<open>search_status\<close> is
  \<^verbatim>\<open>"success"\<close> and \<^verbatim>\<open>analysis_timestamp\<close> is the current time when absent; none of
  these fields is ever \<^verbatim>\<open>undefined\<close> in the result. The optional \<^verbatim>\<open>suggestions\<close>
  list is handed on as received.
\<close>

theorem search_defaults:
  assumes "outcome (fetchWithTimeout net UNIVERSITY_TIMEOUT MAX_RETRIES) = Inr response"
    and "json response = Inr responseData"
    and "result (searchUniversityReviews base now net universityName) = Inr normalized"
  shows "(\<not> isArray (js_get responseData ''negative_reviews'') \<longrightarrow> negative_reviews normalized = [])
    \<and> (\<not> isArray (js_get responseData ''positive_reviews'') \<longrightarrow> positive_reviews normalized = [])
    \<and> (\<not> isArray (js_get responseData ''sources'') \<longrightarrow> sources normalized = [])
    \<and> (js_get (js_get responseData ''review_summary'') ''total_negative_reviews'' = JUndefined \<longrightarrow>
          total_negative_reviews (review_summary normalized) = JNum 0)
    \<and> (js_get (js_get responseData ''review_summary'') ''total_positive_reviews'' = JUndefined \<longrightarrow>
          total_positive_reviews (review_summary normalized) = JNum 0)
    \<and> (js_get (js_get responseData ''review_summary'') ''average_rating'' = JUndefined \<longrightarrow>
          average_rating (review_summary normalized) = JNum 0)
    \<and> (js_get (js_get responseData ''review_summary'') ''common_complaints'' = JUndefined \<longrightarrow>
          common_complaints (review_summary normalized) = JArr [])
    \<and> (js_get (js_get responseData ''review_summary'') ''common_praises'' = JUndefined \<longrightarrow>
          common_praises (review_summary normalized) = JArr [])
    \<and> (js_get responseData ''search_status'' = JUndefined \<longrightarrow>
          search_status normalized = JStr ''success'')
    \<and> (js_get responseData ''analysis_timestamp'' = JUndefined \<longrightarrow>
          analysis_timestamp normalized = JStr now)
    \<and> total_negative_reviews (review_summary normalized) \<noteq> JUndefined
    \<and> total_positive_reviews (review_summary normalized) \<noteq> JUndefined
    \<and> average_rating (review_summary normalized) \<noteq> JUndefined
    \<and> common_complaints (review_summary normalized) \<noteq> JUndefined
    \<and> common_praises (review_summary normalized) \<noteq> JUndefined
    \<and> search_status normalized \<noteq> JUndefined
    \<and> analysis_timestamp normalized \<noteq> JUndefined
    \<and> suggestions normalized = js_get responseData ''suggestions''"
proof -
  from search_accepts [OF assms(3)] assms(1,2)
  have n: "normalized = normalizedResponse now universityName responseData" by auto
  show ?thesis unfolding n normalizedResponse_def
    by (simp add: js_or_defined js_or_absent array_or_empty_not_array)
qed

theorem search_defaults_witness:
  "negative_reviews (normalizedResponse noon ''MIT'' (JObj [(''negative_reviews'', JStr ''none'')])) = []
   \<and> sources (normalizedResponse noon ''MIT'' (JObj [(''negative_reviews'', JStr ''none'')])) = []
   \<and> average_rating (review_summary
        (normalizedResponse noon ''MIT'' (JObj [(''negative_reviews'', JStr ''none'')]))) = JNum 0
   \<and> common_complaints (review_summary
        (normalizedResponse noon ''MIT'' (JObj [(''negative_reviews'', JStr ''none'')]))) = JArr []
   \<and> search_status (normalizedResponse noon ''MIT'' (JObj [(''negative_reviews'', JStr ''none'')]))
        = JStr ''success''
   \<and> analysis_timestamp (normalizedResponse noon ''MIT'' (JObj [(''negative_reviews'', JStr ''none'')]))
        = JStr noon"
proof -
  have o: "outcome (fetchWithTimeout (replies 200 (JObj [(''negative_reviews'', JStr ''none'')]))
              UNIVERSITY_TIMEOUT MAX_RETRIES)
           = Inr \<lparr>status = 200, json = Inr (JObj [(''negative_reviews'', JStr ''none'')])\<rparr>"
    by (simp add: replies_transport)
  have j: "json \<lparr>status = 200, json = Inr (JObj [(''negative_reviews'', JStr ''none'')])\<rparr>
           = Inr (JObj [(''negative_reviews'', JStr ''none'')])" by simp
  have r: "result (searchUniversityReviews localhost noon
               (replies 200 (JObj [(''negative_reviews'', JStr ''none'')])) ''MIT'')
           = Inr (normalizedResponse noon ''MIT'' (JObj [(''negative_reviews'', JStr ''none'')]))"
    by (simp add: searchUniversityReviews_def trim_MIT replies_transport search_response_def
        ok_def Let_def)
  from search_defaults [OF o j r] show ?thesis by simp
qed

text \<open>
  C9 as stated fails: \<^verbatim>\<open>suggestions\<close> is an optional collection of the payload, and
  for an accepted payload without it the result has no \<^verbatim>\<open>suggestions\<close> either.
\<close>

theorem missing_suggestions_counterexample:
  "map_sum id suggestions
     (result (searchUniversityReviews localhost noon
        (replies 200 (JObj [(''search_status'', JStr ''no_data_found'')])) ''MIT''))
   = Inr JUndefined"
  by (simp add: searchUniversityReviews_def trim_MIT replies_transport search_response_def
      ok_def Let_def normalizedResponse_def)

section \<open>Validation of an analysis payload\<close>

text \<open>
  C4, as the code has it. \<^verbatim>\<open>analyzeDocument\<close> rejects a 2xx reply whose body lacks
  \<^verbatim>\<open>summary\<close> or \<^verbatim>\<open>claims\<close> (or holds a falsy value there) with an ApiError of status
  500, and returns every other body unchanged, whether or not its \<^verbatim>\<open>claims\<close> is a
  sequence. \<^verbatim>\<open>mapApiResponseToFrontend\<close> rejects a payload that is not an object, that
  lacks \<^verbatim>\<open>summary\<close> or \<^verbatim>\<open>claims\<close>, or whose \<^verbatim>\<open>claims\<close> is not a sequence, with a
  generic Error that carries no status code.
\<close>

theorem malformed_payload_rejection:
  "(encoded document = Inr base64Content
      \<and> outcome (fetchWithTimeout net FETCH_TIMEOUT MAX_RETRIES) = Inr response
      \<and> ok response \<and> json response = Inr responseData \<longrightarrow>
      ((\<not> truthy (js_get responseData ''summary'') \<or> \<not> truthy (js_get responseData ''claims'') \<longrightarrow>
          (\<exists>m. result (analyzeDocument base net document) = Inl (ApiError m 500 JUndefined)))
       \<and> (truthy (js_get responseData ''summary'') \<and> truthy (js_get responseData ''claims'') \<longrightarrow>
          result (analyzeDocument base net document) = Inr responseData)))
   \<and> (\<not> truthy apiResponse \<or> \<not> typeof_object apiResponse
       \<or> \<not> truthy (js_get apiResponse ''summary'') \<or> \<not> truthy (js_get apiResponse ''claims'')
       \<or> \<not> isArray (js_get apiResponse ''claims'') \<longrightarrow>
       (\<exists>msg. mapApiResponseToFrontend rnd apiResponse = Inl (JsError PlainError msg)
          \<and> status_of (JsError PlainError msg) = None))"
  using analyze_malformed [of document base64Content net response responseData base]
    analyze_accepts [of document base64Content net response responseData base]
    map_rejects [of apiResponse rnd]
  by (simp (no_asm_simp))

theorem malformed_payload_rejection_witness:
  "result (analyzeDocument localhost (replies 200 (JObj [(''claims'', JArr [])])) report_txt)
     = Inl (ApiError (JStr ''Invalid response structure from backend'') 500 JUndefined)
   \<and> mapApiResponseToFrontend half (JObj [(''summary'', JObj []), (''claims'', JStr ''none'')])
     = Inl (JsError PlainError ''Invalid API response: Missing or invalid claims array'')"
proof -
  have h: "encoded report_txt = Inr ''cmVwb3J0''
      \<and> outcome (fetchWithTimeout (replies 200 (JObj [(''claims'', JArr [])]))
            FETCH_TIMEOUT MAX_RETRIES)
          = Inr \<lparr>status = 200, json = Inr (JObj [(''claims'', JArr [])])\<rparr>
      \<and> ok \<lparr>status = 200, json = Inr (JObj [(''claims'', JArr [])])\<rparr>
      \<and> json \<lparr>status = 200, json = Inr (JObj [(''claims'', JArr [])])\<rparr>
          = Inr (JObj [(''claims'', JArr [])])"
    by (simp add: encoded_report replies_transport ok_def)
  have g: "\<not> truthy (js_get (JObj [(''claims'', JArr [])]) ''summary'')" by simp
  have k: "\<not> isArray (js_get (JObj [(''summary'', JObj []), (''claims'', JStr ''none'')]) ''claims'')"
    by simp
  note T = malformed_payload_rejection
     [of report_txt "''cmVwb3J0''" "replies 200 (JObj [(''claims'', JArr [])])"
         "\<lparr>status = 200, json = Inr (JObj [(''claims'', JArr [])])\<rparr>"
         "JObj [(''claims'', JArr [])]" localhost
         "JObj [(''summary'', JObj []), (''claims'', JStr ''none'')]" half]
  from T h g have "\<exists>m. result (analyzeDocument localhost (replies 200 (JObj [(''claims'', JArr [])]))
               report_txt) = Inl (ApiError m 500 JUndefined)"
    by blast
  then have 1: "result (analyzeDocument localhost (replies 200 (JObj [(''claims'', JArr [])]))
               report_txt)
     = Inl (ApiError (JStr ''Invalid response structure from backend'') 500 JUndefined)"
    by (simp add: analyzeDocument_def encoded_report replies_transport analyze_response_def
        ok_def Let_def)
  from T k have "\<exists>msg. mapApiResponseToFrontend half
        (JObj [(''summary'', JObj []), (''claims'', JStr ''none'')]) = Inl (JsError PlainError msg)"
    by blast
  then have 2: "mapApiResponseToFrontend half (JObj [(''summary'', JObj []), (''claims'', JStr ''none'')])
     = Inl (JsError PlainError ''Invalid API response: Missing or invalid claims array'')"
    by (simp add: mapApiResponseToFrontend_def)
  from 1 2 show ?thesis by simp
qed

text \<open>
  C4 as stated fails twice. A payload without \<^verbatim>\<open>summary\<close> makes
  \<^verbatim>\<open>mapApiResponseToFrontend\<close> raise a generic Error, which carries no status, not a
  failure of status 500; and \<^verbatim>\<open>analyzeDocument\<close> returns a 2xx body whose \<^verbatim>\<open>claims\<close>
  is a string instead of rejecting it.
\<close>

theorem malformed_payload_counterexample:
  "mapApiResponseToFrontend half (JObj [(''claims'', JArr [])])
     = Inl (JsError PlainError ''Invalid API response: Missing summary field'')
   \<and> status_of (JsError PlainError ''Invalid API response: Missing summary field'') = None
   \<and> result (analyzeDocument localhost
        (replies 200 (JObj [(''summary'', JObj []), (''claims'', JStr ''none'')])) report_txt)
     = Inr (JObj [(''summary'', JObj []), (''claims'', JStr ''none'')])"
  by (simp add: mapApiResponseToFrontend_def analyzeDocument_def encoded_report
      replies_transport analyze_response_def ok_def Let_def)

section \<open>Normalizing the claims\<close>

lemma is_object_not_nullish: "is_object v \<Longrightarrow> \<not> nullish v"
  by (cases v) simp_all

lemma objects_not_nullish: "list_all is_object xs \<Longrightarrow> \<not> list_ex nullish xs"
  by (induction xs) (auto simp: is_object_not_nullish)

lemma list_all_take: "list_all P xs \<Longrightarrow> list_all P (take n xs)"
  by (auto simp: list_all_iff dest: in_set_takeD)

lemma is_string_no_throw: "is_string v \<Longrightarrow> \<not> toString_throws v"
  by (cases v) simp_all

lemma number_no_throw: "number_or_absent v \<Longrightarrow> \<not> toString_throws v"
  by (cases v) simp_all

lemma mapClaim_total:
  "well_formed apiClaim \<Longrightarrow> \<exists>claim p'. mapClaim rnd p index apiClaim = Inr (claim, p')"
  by (simp add: well_formed_def mapClaim_def Let_def is_object_not_nullish is_string_no_throw
      number_no_throw objects_not_nullish list_all_take web_slice_def)

lemma mapClaims_total:
  "list_all well_formed cs \<Longrightarrow> \<exists>mapped. mapClaims rnd p index cs = Inr mapped"
proof (induction cs arbitrary: p index)
  case Nil
  show ?case by simp
next
  case (Cons c cs)
  then have "well_formed c" and rest: "list_all well_formed cs" by simp_all
  from mapClaim_total [OF this(1)] obtain claim p' where
    c: "mapClaim rnd p index c = Inr (claim, p')" by blast
  from Cons.IH [OF rest] obtain mapped where "mapClaims rnd p' (Suc index) cs = Inr mapped"
    by blast
  with c show ?case by simp
qed

text \<open>Every mapped claim is what the callback makes of the raw claim at its index.\<close>

lemma mapClaims_nth:
  "mapClaims rnd p index cs = Inr mapped \<Longrightarrow>
   length mapped = length cs \<and>
   (\<forall>i<length cs. \<exists>q q'. mapClaim rnd q (index + i) (cs ! i) = Inr (mapped ! i, q'))"
proof (induction cs arbitrary: p index mapped)
  case Nil
  then show ?case by simp
next
  case (Cons c cs)
  from Cons.prems obtain claim p' rest where
    c: "mapClaim rnd p index c = Inr (claim, p')" and
    r: "mapClaims rnd p' (Suc index) cs = Inr rest" and
    m: "mapped = claim # rest"
    by (auto split: sum.splits prod.splits)
  from Cons.IH [OF r] have len: "length rest = length cs"
    and nth: "\<And>i. i < length cs \<Longrightarrow>
            \<exists>q q'. mapClaim rnd q (Suc index + i) (cs ! i) = Inr (rest ! i, q')"
    by auto
  have "\<exists>q q'. mapClaim rnd q (index + i) ((c # cs) ! i) = Inr (mapped ! i, q')"
    if "i < length (c # cs)" for i
  proof (cases i)
    case 0
    with c m show ?thesis by auto
  next
    case (Suc j)
    with that have "j < length cs" by simp
    from nth [OF this] Suc m show ?thesis by simp
  qed
  with len m show ?case by simp
qed

lemma mapped_claims:
  assumes "mapApiResponseToFrontend rnd apiResponse = Inr analysis"
  shows "\<exists>cs. js_get apiResponse ''claims'' = JArr cs \<and> mapClaims rnd 0 0 cs = Inr (claims analysis)"
proof -
  from assms have arr: "isArray (js_get apiResponse ''claims'')"
    by (auto simp add: mapApiResponseToFrontend_def split: if_splits)
  then obtain cs where cs: "js_get apiResponse ''claims'' = JArr cs"
    by (cases "js_get apiResponse ''claims''") simp_all
  with assms have "mapClaims rnd 0 0 cs = Inr (claims analysis)"
    by (auto simp add: mapApiResponseToFrontend_def split: if_splits sum.splits)
  with cs show ?thesis by blast
qed

lemma web_evidence_items_length: "length (web_evidence_items index webIndex xs) = length xs"
  by (induction xs arbitrary: webIndex) simp_all

lemma web_evidence_items_nth:
  "k < length xs \<Longrightarrow>
   web_evidence_items index webIndex xs ! k = web_evidence_item index (webIndex + k) (xs ! k)"
proof (induction xs arbitrary: webIndex k)
  case Nil
  then show ?case by simp
next
  case (Cons x xs)
  then show ?case by (cases k) simp_all
qed

lemma mapClaim_fields:
  assumes "mapClaim rnd p index apiClaim = Inr (claim, p')"
  shows "reviewStatus claim = Some ''pending''" and "reviewNotes claim = None"
    and "reviewReason claim = None"
    and "evidence claim =
       \<lparr>evidence_id = ''evidence-'' @ show_nat index @ ''-1'',
        evidence_text = js_get apiClaim ''evidence_summary'',
        source = js_get (js_get apiClaim ''metadata'') ''source'',
        evidence_url = JStr ''#'',
        relevanceScore = JNum 85\<rparr>
       # web_evidence_items index 0 (web_slice apiClaim)"
    and "consistency claim =
       or_default (lookup consistencyMap (property_key (js_get apiClaim ''verdict'')))
         (JStr ''Unverifiable'')"
    and "trustScore claim =
       (if supplied (js_get apiClaim ''trustScore'') then Json (js_get apiClaim ''trustScore'')
        else or_default (lookup (trustScoreMap rnd p) (property_key (js_get apiClaim ''verdict'')))
               (JNum 50))"
  using assms by (auto simp add: mapClaim_def Let_def split: if_splits)

text \<open>
  C10. Whatever the payload, every claim \<^verbatim>\<open>mapApiResponseToFrontend\<close> produces has the
  review status \<^verbatim>\<open>"pending"\<close> and neither review notes nor a review reason.
\<close>

theorem review_state_pending:
  assumes "mapApiResponseToFrontend rnd apiResponse = Inr analysis"
  shows "list_all (\<lambda>claim. reviewStatus claim = Some ''pending'' \<and> reviewNotes claim = None
                      \<and> reviewReason claim = None) (claims analysis)"
proof -
  from mapped_claims [OF assms] obtain cs where
    m: "mapClaims rnd 0 0 cs = Inr (claims analysis)" by blast
  from mapClaims_nth [OF m] have len: "length (claims analysis) = length cs"
    and nth: "\<And>i. i < length cs \<Longrightarrow>
            \<exists>q q'. mapClaim rnd q (0 + i) (cs ! i) = Inr (claims analysis ! i, q')"
    by auto
  have "reviewStatus (claims analysis ! i) = Some ''pending''
          \<and> reviewNotes (claims analysis ! i) = None
          \<and> reviewReason (claims analysis ! i) = None" if "i < length (claims analysis)" for i
  proof -
    from that len have "i < length cs" by simp
    from nth [OF this] obtain q q' where
      "mapClaim rnd q (0 + i) (cs ! i) = Inr (claims analysis ! i, q')" by blast
    from mapClaim_fields(1-3) [OF this] show ?thesis by simp
  qed
  then show ?thesis by (simp add: list_all_length)
qed

lemma web_payload_maps:
  "\<exists>analysis. mapApiResponseToFrontend half web_payload = Inr analysis
      \<and> length (claims analysis) = 1"
proof -
  have "list_all well_formed [web_claim]" by (simp add: well_formed_def web_claim_def)
  from mapClaims_total [OF this, of half 0 0] obtain mapped where
    m: "mapClaims half 0 0 [web_claim] = Inr mapped" by blast
  from mapClaims_nth [OF m] have "length mapped = 1" by simp
  with m show ?thesis by (simp add: mapApiResponseToFrontend_def web_payload_def)
qed

theorem review_state_pending_witness:
  "\<exists>analysis. mapApiResponseToFrontend half web_payload = Inr analysis
     \<and> length (claims analysis) = 1
     \<and> reviewStatus (hd (claims analysis)) = Some ''pending''
     \<and> reviewNotes (hd (claims analysis)) = None
     \<and> reviewReason (hd (claims analysis)) = None"
proof -
  from web_payload_maps obtain analysis where
    a: "mapApiResponseToFrontend half web_payload = Inr analysis" "length (claims analysis) = 1"
    by blast
  from a(2) obtain claim where c: "claims analysis = [claim]"
    by (cases "claims analysis") simp_all
  from review_state_pending [OF a(1)] c a show ?thesis by simp
qed

text \<open>
  C5, as the code has it. For every raw payload with a summary and an array of
  well-formed claims (possibly empty), \<^verbatim>\<open>mapApiResponseToFrontend\<close> succeeds and yields
  one claim per raw claim, in order. The evidence of each is non-empty: its first element
  takes its text from the raw evidence summary and its source from the raw metadata, with
  relevance 85 and the URL \<^verbatim>\<open>"#"\<close>; it is followed by one element for each of the first
  three web-evidence records, each carrying the record's own relevance score or 75: its
  own score whenever the record has a number other than 0 there, and 75 whenever the
  record has none. Nothing more is said here about a record whose score is 0.
\<close>

theorem normalization_total:
  assumes "truthy (js_get apiResponse ''summary'')"
    and "js_get apiResponse ''claims'' = JArr cs"
    and "list_all well_formed cs"
  shows "\<exists>analysis. mapApiResponseToFrontend rnd apiResponse = Inr analysis
     \<and> length (claims analysis) = length cs
     \<and> (\<forall>i<length cs.
          evidence (claims analysis ! i) \<noteq> []
        \<and> evidence_text (hd (evidence (claims analysis ! i))) = js_get (cs ! i) ''evidence_summary''
        \<and> source (hd (evidence (claims analysis ! i)))
            = js_get (js_get (cs ! i) ''metadata'') ''source''
        \<and> relevanceScore (hd (evidence (claims analysis ! i))) = JNum 85
        \<and> evidence_url (hd (evidence (claims analysis ! i))) = JStr ''#''
        \<and> length (tl (evidence (claims analysis ! i)))
            = min 3 (length (array_or_empty (js_get (cs ! i) ''web_evidence'')))
        \<and> (\<forall>j<length (tl (evidence (claims analysis ! i))).
              (relevanceScore (tl (evidence (claims analysis ! i)) ! j)
                 = js_get (array_or_empty (js_get (cs ! i) ''web_evidence'') ! j) ''relevance_score''
               \<or> relevanceScore (tl (evidence (claims analysis ! i)) ! j) = JNum 75)
            \<and> (js_get (array_or_empty (js_get (cs ! i) ''web_evidence'') ! j) ''relevance_score''
                 = JUndefined \<longrightarrow>
                 relevanceScore (tl (evidence (claims analysis ! i)) ! j) = JNum 75)
            \<and> (\<forall>n. js_get (array_or_empty (js_get (cs ! i) ''web_evidence'') ! j) ''relevance_score''
                   = JNum n \<and> n \<noteq> 0 \<longrightarrow>
                 relevanceScore (tl (evidence (claims analysis ! i)) ! j) = JNum n)))"
proof -
  from mapClaims_total [OF assms(3)] obtain mapped where m: "mapClaims rnd 0 0 cs = Inr mapped"
    by blast
  from assms(1) have obj: "truthy apiResponse" "typeof_object apiResponse"
    by (cases apiResponse; simp)+
  define analysis where "analysis = \<lparr>summary =
       \<lparr>totalClaims = js_get (js_get apiResponse ''summary'') ''total_claims'',
        processingTime = js_get (js_get apiResponse ''summary'') ''processing_time_seconds'',
        documentName = js_get (js_get apiResponse ''summary'') ''document_name'',
        timestamp = js_get (js_get apiResponse ''summary'') ''timestamp'',
        analysisMode = js_get (js_get apiResponse ''summary'') ''analysis_mode''\<rparr>,
     claims = mapped\<rparr>"
  have r: "mapApiResponseToFrontend rnd apiResponse = Inr analysis"
    using assms(1,2) obj m by (simp add: mapApiResponseToFrontend_def analysis_def)
  have cl: "claims analysis = mapped" by (simp add: analysis_def)
  from mapClaims_nth [OF m] have len: "length mapped = length cs"
    and nth: "\<And>i. i < length cs \<Longrightarrow>
            \<exists>q q'. mapClaim rnd q (0 + i) (cs ! i) = Inr (mapped ! i, q')"
    by auto
  have each: "evidence (mapped ! i) \<noteq> []
        \<and> evidence_text (hd (evidence (mapped ! i))) = js_get (cs ! i) ''evidence_summary''
        \<and> source (hd (evidence (mapped ! i)))
            = js_get (js_get (cs ! i) ''metadata'') ''source''
        \<and> relevanceScore (hd (evidence (mapped ! i))) = JNum 85
        \<and> evidence_url (hd (evidence (mapped ! i))) = JStr ''#''
        \<and> length (tl (evidence (mapped ! i)))
            = min 3 (length (array_or_empty (js_get (cs ! i) ''web_evidence'')))
        \<and> (\<forall>j<length (tl (evidence (mapped ! i))).
              (relevanceScore (tl (evidence (mapped ! i)) ! j)
                 = js_get (array_or_empty (js_get (cs ! i) ''web_evidence'') ! j) ''relevance_score''
               \<or> relevanceScore (tl (evidence (mapped ! i)) ! j) = JNum 75)
            \<and> (js_get (array_or_empty (js_get (cs ! i) ''web_evidence'') ! j) ''relevance_score''
                 = JUndefined \<longrightarrow>
                 relevanceScore (tl (evidence (mapped ! i)) ! j) = JNum 75)
            \<and> (\<forall>n. js_get (array_or_empty (js_get (cs ! i) ''web_evidence'') ! j) ''relevance_score''
                   = JNum n \<and> n \<noteq> 0 \<longrightarrow>
                 relevanceScore (tl (evidence (mapped ! i)) ! j) = JNum n))" if "i < length cs" for i
  proof -
    from nth [OF that] obtain q q' where "mapClaim rnd q (0 + i) (cs ! i) = Inr (mapped ! i, q')"
      by blast
    from mapClaim_fields(4) [OF this] show ?thesis
      by (simp add: web_evidence_items_length web_evidence_items_nth web_slice_def
          web_evidence_item_def js_or_def)
  qed
  from r len each show ?thesis unfolding cl [symmetric] by blast
qed

theorem normalization_total_witness:
  "\<exists>analysis. mapApiResponseToFrontend half web_payload = Inr analysis
     \<and> length (claims analysis) = 1
     \<and> source (hd (evidence (claims analysis ! 0))) = JStr ''doc''
     \<and> relevanceScore (hd (evidence (claims analysis ! 0))) = JNum 85
     \<and> length (tl (evidence (claims analysis ! 0))) = 3
     \<and> relevanceScore (tl (evidence (claims analysis ! 0)) ! 0) = JNum (9 / 10)
     \<and> relevanceScore (tl (evidence (claims analysis ! 0)) ! 2) = JNum 75"
proof -
  have s: "truthy (js_get web_payload ''summary'')" by (simp add: web_payload_def)
  have c: "js_get web_payload ''claims'' = JArr [web_claim]" by (simp add: web_payload_def)
  have w: "list_all well_formed [web_claim]" by (simp add: well_formed_def web_claim_def)
  from normalization_total [OF s c w, of half] obtain analysis where
    a: "mapApiResponseToFrontend half web_payload = Inr analysis"
       "length (claims analysis) = length [web_claim]"
    and e: "\<forall>i<length [web_claim].
          evidence (claims analysis ! i) \<noteq> []
        \<and> evidence_text (hd (evidence (claims analysis ! i))) = js_get ([web_claim] ! i) ''evidence_summary''
        \<and> source (hd (evidence (claims analysis ! i)))
            = js_get (js_get ([web_claim] ! i) ''metadata'') ''source''
        \<and> relevanceScore (hd (evidence (claims analysis ! i))) = JNum 85
        \<and> evidence_url (hd (evidence (claims analysis ! i))) = JStr ''#''
        \<and> length (tl (evidence (claims analysis ! i)))
            = min 3 (length (array_or_empty (js_get ([web_claim] ! i) ''web_evidence'')))
        \<and> (\<forall>j<length (tl (evidence (claims analysis ! i))).
              (relevanceScore (tl (evidence (claims analysis ! i)) ! j)
                 = js_get (array_or_empty (js_get ([web_claim] ! i) ''web_evidence'') ! j) ''relevance_score''
               \<or> relevanceScore (tl (evidence (claims analysis ! i)) ! j) = JNum 75)
            \<and> (js_get (array_or_empty (js_get ([web_claim] ! i) ''web_evidence'') ! j) ''relevance_score''
                 = JUndefined \<longrightarrow>
                 relevanceScore (tl (evidence (claims analysis ! i)) ! j) = JNum 75)
            \<and> (\<forall>n. js_get (array_or_empty (js_get ([web_claim] ! i) ''web_evidence'') ! j) ''relevance_score''
                   = JNum n \<and> n \<noteq> 0 \<longrightarrow>
                 relevanceScore (tl (evidence (claims analysis ! i)) ! j) = JNum n))"
    by blast
  from e have e0: "source (hd (evidence (claims analysis ! 0))) = JStr ''doc''"
      "relevanceScore (hd (evidence (claims analysis ! 0))) = JNum 85"
      "length (tl (evidence (claims analysis ! 0))) = 3"
    and absent: "\<And>j. j < 3 \<Longrightarrow>
        js_get (array_or_empty (js_get web_claim ''web_evidence'') ! j) ''relevance_score''
          = JUndefined \<Longrightarrow>
        relevanceScore (tl (evidence (claims analysis ! 0)) ! j) = JNum 75"
    and own: "\<And>j n. j < 3 \<Longrightarrow>
        js_get (array_or_empty (js_get web_claim ''web_evidence'') ! j) ''relevance_score''
          = JNum n \<Longrightarrow> n \<noteq> 0 \<Longrightarrow>
        relevanceScore (tl (evidence (claims analysis ! 0)) ! j) = JNum n"
    by (simp_all add: web_claim_def)
  have "relevanceScore (tl (evidence (claims analysis ! 0)) ! 0) = JNum (9 / 10)"
    by (rule own) (simp_all add: web_claim_def)
  moreover have "relevanceScore (tl (evidence (claims analysis ! 0)) ! 2) = JNum 75"
    by (rule absent) (simp_all add: web_claim_def)
  ultimately show ?thesis using a e0 by simp
qed

text \<open>
  C5 as stated fails: a payload with a summary and a claims array whose one claim is an
  object without \<^verbatim>\<open>metadata\<close> makes \<^verbatim>\<open>mapApiResponseToFrontend\<close> throw a TypeError.
\<close>

theorem claim_without_metadata_counterexample:
  "mapApiResponseToFrontend half (JObj [(''summary'', JObj []), (''claims'', JArr [JObj []])])
   = Inl (JsError TypeError
       (''Cannot read properties of undefined (reading '' @ [CHR 0x27] @ ''source'' @ [CHR 0x27] @ '')''))"
  by (simp add: mapApiResponseToFrontend_def mapClaim_def supplied_def Let_def)

text \<open>
  A web-evidence record whose relevance score is the number 0 gets 75: the fallback
  \<^verbatim>\<open>webEv.relevance_score || 75\<close> takes 0 for a missing score, as the guard of the trust
  score does. The second record of the claim below has the score 0.
\<close>

lemma zero_relevance_score_replaced:
  "map_sum id (\<lambda>analysis. map (\<lambda>claim. map relevanceScore (evidence claim)) (claims analysis))
     (mapApiResponseToFrontend half web_payload)
   = Inr [[JNum 85, JNum (9 / 10), JNum 75, JNum 75]]"
  by (simp add: mapApiResponseToFrontend_def web_payload_def web_claim_def mapClaim_def
      supplied_def Let_def web_slice_def web_evidence_item_def js_or_def well_formed_def)

section \<open>Trust score and consistency\<close>

lemma random_int_range:
  assumes "0 \<le> r" and "r < 1" and "0 < n"
  shows "\<exists>k. random_int r n lo = JNum (of_int k) \<and> lo \<le> k \<and> k < lo + n"
proof -
  have "0 \<le> r * of_int n" using assms by simp
  then have lo: "0 \<le> \<lfloor>r * of_int n\<rfloor>" by simp
  have "r * of_int n < of_int n" using assms by simp
  then have hi: "\<lfloor>r * of_int n\<rfloor> < n" by (simp add: floor_less_iff)
  from lo hi show ?thesis
    by (intro exI [of _ "\<lfloor>r * of_int n\<rfloor> + lo"]) (simp add: random_int_def)
qed

text \<open>A raw score that is a number other than 0 is kept as it is.\<close>

lemma trustScore_verbatim:
  assumes "mapClaim rnd p index apiClaim = Inr (claim, p')"
    and "js_get apiClaim ''trustScore'' = JNum n" and "n \<noteq> 0"
  shows "trustScore claim = Json (JNum n)"
  using mapClaim_fields(6) [OF assms(1)] assms(2,3) by (simp add: supplied_def)

text \<open>
  Without a numeric raw score the synthesized score lies in the range of the verdict,
  whatever the random source gives, and is 50 for a verdict that names neither one of the
  five nor a member of \<^verbatim>\<open>Object.prototype\<close>.
\<close>

lemma trustScore_synthesized:
  assumes "unit_interval rnd" and "mapClaim rnd p index apiClaim = Inr (claim, p')"
    and "\<not> typeof_number (js_get apiClaim ''trustScore'')"
    and "js_get apiClaim ''verdict'' = JStr v"
  shows "(v = ''Confirmed'' \<longrightarrow>
            (\<exists>k. trustScore claim = Json (JNum (of_int k)) \<and> 80 \<le> k \<and> k \<le> 95))
     \<and> (v = ''Supported'' \<longrightarrow>
            (\<exists>k. trustScore claim = Json (JNum (of_int k)) \<and> 75 \<le> k \<and> k \<le> 90))
     \<and> (v = ''Contradicted'' \<longrightarrow>
            (\<exists>k. trustScore claim = Json (JNum (of_int k)) \<and> 10 \<le> k \<and> k \<le> 30))
     \<and> (v = ''Unverifiable'' \<longrightarrow>
            (\<exists>k. trustScore claim = Json (JNum (of_int k)) \<and> 40 \<le> k \<and> k \<le> 60))
     \<and> (v = ''Unsupported'' \<longrightarrow>
            (\<exists>k. trustScore claim = Json (JNum (of_int k)) \<and> 25 \<le> k \<and> k \<le> 45))
     \<and> (v \<notin> set [''Confirmed'', ''Supported'', ''Contradicted'', ''Unverifiable'', ''Unsupported'']
          \<longrightarrow> v \<notin> set Object_prototype \<longrightarrow> trustScore claim = Json (JNum 50))"
proof -
  from assms(1) have u: "\<And>k. 0 \<le> rnd k" "\<And>k. rnd k < 1" by (simp_all add: unit_interval_def)
  have ts: "trustScore claim = or_default (lookup (trustScoreMap rnd p) (Some v)) (JNum 50)"
    using mapClaim_fields(6) [OF assms(2)] assms(3,4) by (simp add: supplied_def)
  from random_int_range [OF u(1) u(2), of 16 p 80] obtain k1 where
    k1: "random_int (rnd p) 16 80 = JNum (of_int k1)" "80 \<le> k1" "k1 < 96" by auto
  from random_int_range [OF u(1) u(2), of 16 "p + 1" 75] obtain k2 where
    k2: "random_int (rnd (p + 1)) 16 75 = JNum (of_int k2)" "75 \<le> k2" "k2 < 91" by auto
  from random_int_range [OF u(1) u(2), of 21 "p + 2" 10] obtain k3 where
    k3: "random_int (rnd (p + 2)) 21 10 = JNum (of_int k3)" "10 \<le> k3" "k3 < 31" by auto
  from random_int_range [OF u(1) u(2), of 21 "p + 3" 40] obtain k4 where
    k4: "random_int (rnd (p + 3)) 21 40 = JNum (of_int k4)" "40 \<le> k4" "k4 < 61" by auto
  from random_int_range [OF u(1) u(2), of 21 "p + 4" 25] obtain k5 where
    k5: "random_int (rnd (p + 4)) 21 25 = JNum (of_int k5)" "25 \<le> k5" "k5 < 46" by auto
  show ?thesis unfolding ts trustScoreMap_def k1(1) k2(1) k3(1) k4(1) k5(1)
    using k1(2,3) k2(2,3) k3(2,3) k4(2,3) k5(2,3)
    by (simp add: js_or_def)
qed

text \<open>
  C2 at a claim whose raw trust score is the number 0 and whose verdict is
  \<^verbatim>\<open>"Confirmed"\<close>: the guard \<^verbatim>\<open>apiClaim.trustScore && \<dots>\<close> takes 0 for a missing score, and
  the normalized score is drawn from 80 to 95 (88 when the random source gives one half)
  instead of being 0.
\<close>

theorem zero_trustScore_replaced:
  "map_sum id (\<lambda>analysis. map trustScore (claims analysis))
     (mapApiResponseToFrontend half (scored_payload (JStr ''Confirmed'') (JNum 0)))
   = Inr [Json (JNum 88)]"
  by (simp add: mapApiResponseToFrontend_def scored_payload_def scored_claim_def mapClaim_def
      supplied_def Let_def web_slice_def trustScoreMap_def random_int_def half_def js_or_def)

text \<open>
  The verdicts the table knows map as it says, and a verdict that names neither one of
  the five nor a member of \<^verbatim>\<open>Object.prototype\<close> maps to \<^verbatim>\<open>"Unverifiable"\<close>; a verdict
  that names such a member maps to that member.
\<close>

lemma consistency_table:
  assumes "mapClaim rnd p index apiClaim = Inr (claim, p')"
    and "js_get apiClaim ''verdict'' = JStr v"
  shows "(v = ''Confirmed'' \<longrightarrow> consistency claim = Json (JStr ''Supported''))
     \<and> (v = ''Supported'' \<longrightarrow> consistency claim = Json (JStr ''Supported''))
     \<and> (v = ''Contradicted'' \<longrightarrow> consistency claim = Json (JStr ''Contradicted''))
     \<and> (v = ''Unverifiable'' \<longrightarrow> consistency claim = Json (JStr ''Unverifiable''))
     \<and> (v = ''Unsupported'' \<longrightarrow> consistency claim = Json (JStr ''Unsupported''))
     \<and> (v \<notin> set [''Confirmed'', ''Supported'', ''Contradicted'', ''Unverifiable'', ''Unsupported'']
          \<longrightarrow> v \<notin> set Object_prototype \<longrightarrow> consistency claim = Json (JStr ''Unverifiable''))
     \<and> (v \<in> set Object_prototype \<longrightarrow> consistency claim = Inherited v)"
  unfolding mapClaim_fields(5) [OF assms(1)] assms(2)
  by (auto simp add: consistencyMap_def js_or_def Object_prototype_def)

text \<open>
  C3 at a claim whose verdict is \<^verbatim>\<open>"constructor"\<close>, a value outside the five known
  ones: \<^verbatim>\<open>consistencyMap["constructor"]\<close> finds the constructor every object inherits,
  which is truthy, so the normalized consistency is that function and not
  \<^verbatim>\<open>"Unverifiable"\<close>.
\<close>

theorem inherited_consistency:
  "map_sum id (\<lambda>analysis. map consistency (claims analysis))
     (mapApiResponseToFrontend half (scored_payload (JStr ''constructor'') (JNum 90)))
   = Inr [Inherited ''constructor'']"
  by (simp add: mapApiResponseToFrontend_def scored_payload_def scored_claim_def mapClaim_def
      supplied_def Let_def web_slice_def consistencyMap_def Object_prototype_def js_or_def)

end
